theory Spec2Isabelle
  imports Main
begin

section \<open>Python values at the transport boundary\<close>

text \<open>
  The argument bag of a tool call is decoded JSON, and the backend hands back ordinary
  Python objects. Both are modelled by one datatype of values: \<open>None\<close>, booleans,
  (unbounded) integers, strings, lists and string-keyed dictionaries (an association
  list; a lookup takes the first entry of a key). JSON numbers with a fraction are left
  out: they occur in no schema of the catalog.
\<close>

datatype pyval =
    PNone
  | PBool bool
  | PInt int
  | PStr string
  | PList "pyval list"
  | PDict "(string \<times> pyval) list"

text \<open>Python's truth value testing, which \<open>not x\<close> and \<open>all([...])\<close> use.\<close>

fun truthy :: "pyval \<Rightarrow> bool" where
  "truthy PNone = False"
| "truthy (PBool b) = b"
| "truthy (PInt i) = (i \<noteq> 0)"
| "truthy (PStr s) = (s \<noteq> [])"
| "truthy (PList xs) = (xs \<noteq> [])"
| "truthy (PDict kvs) = (kvs \<noteq> [])"

definition py_all :: "pyval list \<Rightarrow> bool" where
  "py_all vs = list_all truthy vs"

type_synonym args = "string \<rightharpoonup> pyval"

text \<open>\<open>arguments.get(key, default)\<close> and \<open>arguments.get(key)\<close>.\<close>

definition dict_get :: "args \<Rightarrow> string \<Rightarrow> pyval \<Rightarrow> pyval" where
  "dict_get arguments key dflt = (case arguments key of None \<Rightarrow> dflt | Some v \<Rightarrow> v)"

definition dict_get_none :: "args \<Rightarrow> string \<Rightarrow> pyval" where
  "dict_get_none arguments key = dict_get arguments key PNone"

section \<open>Exceptions\<close>

text \<open>
  Modelled from the spec: the exception classes of \<open>excel_mcp.exceptions\<close>, which
  \<open>server.py\<close> imports. The spec names them as a closed set of eight domain error
  kinds; they are taken as pairwise unrelated classes (no one a subclass of another).
  \<open>OtherException\<close> stands for every other subclass of Python's \<open>Exception\<close>
  (\<open>TypeError\<close>, \<open>KeyError\<close>, \<open>OSError\<close>, ...). Signals that are not
  subclasses of \<open>Exception\<close> (\<open>KeyboardInterrupt\<close>, \<open>SystemExit\<close>) are outside
  the model.
\<close>

datatype exn_class =
    ValidationError
  | WorkbookError
  | SheetError
  | DataError
  | FormattingError
  | CalculationError
  | PivotError
  | ChartError
  | OtherException

text \<open>An exception object: its class and the text \<open>str(e)\<close> gives.\<close>

datatype exn = Exn (cls: exn_class) (str: string)

text \<open>
  Exceptions that the interpreter and the libraries raise inside the handlers themselves,
  each with the value it was raised on.
\<close>

datatype fault =
    NotPathLike pyval      \<comment> \<open>\<open>os.path.isabs(v)\<close> on a non-string: TypeError\<close>
  | NotSubscriptable pyval \<comment> \<open>\<open>v["message"]\<close> on a non-dict: TypeError\<close>
  | MissingKey string      \<comment> \<open>\<open>d[k]\<close> with k absent: KeyError\<close>
  | NotIterable pyval      \<comment> \<open>\<open>for row in v\<close> on a non-iterable: TypeError\<close>
  | NotText pyval          \<comment> \<open>\<open>TextContent(text=v)\<close> on a non-string: pydantic's error\<close>

text \<open>
  What the Python runtime supplies and the source does not fix: the text of \<open>str(v)\<close>
  for a value that is not a string, the message of each interpreter-raised exception,
  \<open>urllib.parse.unquote\<close>, and what formatting the whole argument bag in an f-string
  (\<open>{arguments}\<close>) gives: its text, or the exception that \<open>repr\<close> raises on it
  (CPython refuses to print an integer beyond its digit limit, 4300 digits by default,
  with a \<open>ValueError\<close>, and a value nested too deeply with a \<open>RecursionError\<close>).
  They are parameters of the model.
\<close>

record pylib =
  repr :: "pyval \<Rightarrow> string"
  fault_msg :: "fault \<Rightarrow> string"
  unquote :: "string \<Rightarrow> string"
  repr_arguments :: "(string \<rightharpoonup> pyval) \<Rightarrow> exn + string"

definition raise :: "pylib \<Rightarrow> fault \<Rightarrow> exn" where
  "raise lib f = Exn OtherException (fault_msg lib f)"

text \<open>
  \<open>str(v)\<close> of a single value, also what an f-string puts in place of \<open>{v}\<close>.
  Inside the branches this conversion is taken to succeed.
\<close>

definition py_str :: "pylib \<Rightarrow> pyval \<Rightarrow> string" where
  "py_str lib v = (case v of PStr s \<Rightarrow> s | _ \<Rightarrow> repr lib v)"

section \<open>Path Resolver\<close>

text \<open>
  \<open>os.path.isabs\<close> and \<open>os.path.join\<close> of two components, as \<open>posixpath\<close>
  defines them: a path is absolute when it starts with the separator; joining discards
  the first component when the second is absolute, and puts a separator between the two
  unless the first is empty or already ends with one.
\<close>

definition isabs :: "string \<Rightarrow> bool" where
  "isabs s = (take 1 s = ''/'')"

definition endswith_sep :: "string \<Rightarrow> bool" where
  "endswith_sep s = (s \<noteq> [] \<and> last s = CHR ''/'')"

definition path_join :: "string \<Rightarrow> string \<Rightarrow> string" where
  "path_join a b =
     (if isabs b then b
      else if a = [] \<or> endswith_sep a then a @ b
      else a @ ''/'' @ b)"

text \<open>
  \<open>get_excel_path\<close>; the first parameter is the module constant
  \<open>EXCEL_FILES_PATH\<close>, read from the environment at start-up (default below).
  The argument is whatever the bag holds under \<open>filepath\<close>: on anything but a string
  \<open>os.path.isabs\<close> raises.
\<close>

definition default_EXCEL_FILES_PATH :: string where
  "default_EXCEL_FILES_PATH = ''./excel_files''"

definition get_excel_path :: "pylib \<Rightarrow> string \<Rightarrow> pyval \<Rightarrow> exn + string" where
  "get_excel_path lib EXCEL_FILES_PATH filename =
     (case filename of
        PStr f \<Rightarrow> Inr (if isabs f then f else path_join EXCEL_FILES_PATH f)
      | _ \<Rightarrow> Inl (raise lib (NotPathLike filename)))"

section \<open>Backend engine, state and replies\<close>

text \<open>
  A backend operation is called with positional and keyword arguments; the model records
  the name the call site uses for it. The backend reads and writes workbooks on disk, so
  it is a state transformer over a world \<open>'w\<close> the model does not look into; it either
  returns a value or raises. Every call made is appended, with its outcome, to a log that
  is threaded beside the world.
\<close>

datatype call = Call string "pyval list" "(string \<times> pyval) list"

type_synonym 'w backend = "call \<Rightarrow> 'w \<Rightarrow> (exn + pyval) \<times> 'w"

type_synonym log = "(call \<times> (exn + pyval)) list"

type_synonym 'w st = "'w \<times> log"

definition invoke :: "'w backend \<Rightarrow> call \<Rightarrow> 'w st \<Rightarrow> (exn + pyval) \<times> 'w st" where
  "invoke be c s =
     (case s of (w, lg) \<Rightarrow>
        (case be c w of (r, w') \<Rightarrow> (r, (w', lg @ [(c, r)]))))"

text \<open>
  \<open>call_tool\<close> returns a list of \<open>TextContent\<close>. The model tags each returned list
  with the kind of return statement that produced it, in the words of the spec's error
  taxonomy.
\<close>

record TextContent =
  type' :: string
  text' :: string

datatype site =
    MissingParameter
  | DomainFailure
  | ReadFailure
  | NoData
  | Success
  | UnknownTool
  | Unexpected

type_synonym reply = "site \<times> TextContent list"

definition text_reply :: "site \<Rightarrow> string \<Rightarrow> reply" where
  "text_reply k msg = (k, [\<lparr>type' = ''text'', text' = msg\<rparr>])"

text \<open>
  \<open>[TextContent(type="text", text=v)]\<close> for a value \<open>v\<close> that came from the
  backend: the constructor validates that \<open>text\<close> is a string and raises otherwise.
\<close>

definition TextContent_of :: "pylib \<Rightarrow> site \<Rightarrow> pyval \<Rightarrow> exn + reply" where
  "TextContent_of lib k v =
     (case v of PStr s \<Rightarrow> Inr (text_reply k s) | _ \<Rightarrow> Inl (raise lib (NotText v)))"

text \<open>\<open>result[key]\<close> and \<open>key in result\<close>.\<close>

definition subscript :: "pylib \<Rightarrow> pyval \<Rightarrow> string \<Rightarrow> exn + pyval" where
  "subscript lib v key =
     (case v of
        PDict kvs \<Rightarrow>
          (case map_of kvs key of
             Some x \<Rightarrow> Inr x
           | None \<Rightarrow> Inl (raise lib (MissingKey key)))
      | _ \<Rightarrow> Inl (raise lib (NotSubscriptable v)))"

text \<open>\<open>return [TextContent(type="text", text=result["message"])]\<close>\<close>

definition return_message :: "pylib \<Rightarrow> pyval \<Rightarrow> exn + reply" where
  "return_message lib result =
     (case subscript lib result ''message'' of
        Inl e \<Rightarrow> Inl e
      | Inr m \<Rightarrow> TextContent_of lib Success m)"

text \<open>\<open>for row in result\<close>: the items a value yields when iterated.\<close>

definition py_iter :: "pylib \<Rightarrow> pyval \<Rightarrow> exn + pyval list" where
  "py_iter lib v =
     (case v of
        PList xs \<Rightarrow> Inr xs
      | PDict kvs \<Rightarrow> Inr (map (\<lambda>kv. PStr (fst kv)) kvs)
      | PStr s \<Rightarrow> Inr (map (\<lambda>c. PStr [c]) s)
      | _ \<Rightarrow> Inl (raise lib (NotIterable v)))"

text \<open>\<open>"\n".join(parts)\<close>\<close>

fun join_lines :: "string list \<Rightarrow> string" where
  "join_lines [] = []"
| "join_lines [x] = x"
| "join_lines (x # y # ys) = x @ [CHR 0x0A] @ join_lines (y # ys)"

text \<open>
  \<open>try: body except (C1, ..., Cn) as e: return [TextContent(text=f"Error: {str(e)}")]\<close>:
  an exception of a listed class becomes a reply, any other one keeps propagating.
\<close>

definition try_except ::
  "exn_class list \<Rightarrow> (exn + reply) \<times> 'w st \<Rightarrow> (exn + reply) \<times> 'w st" where
  "try_except classes r =
     (case r of
        (Inl e, s) \<Rightarrow>
          if cls e \<in> set classes
          then (Inr (text_reply DomainFailure (''Error: '' @ str e)), s)
          else (Inl e, s)
      | (Inr x, s) \<Rightarrow> (Inr x, s))"

text \<open>Call the backend once and return the \<open>message\<close> field of its result.\<close>

definition call_for_message ::
  "'w backend \<Rightarrow> pylib \<Rightarrow> call \<Rightarrow> 'w st \<Rightarrow> (exn + reply) \<times> 'w st" where
  "call_for_message be lib c s =
     (case invoke be c s of
        (Inl e, s') \<Rightarrow> (Inl e, s')
      | (Inr result, s') \<Rightarrow> (return_message lib result, s'))"

definition missing_required :: reply where
  "missing_required = text_reply MissingParameter ''Error: Missing required parameters''"

definition missing_filepath :: reply where
  "missing_filepath = text_reply MissingParameter ''Error: Missing filepath parameter''"

text \<open>\<open>isinstance(v, dict) and key in v\<close>\<close>

definition dict_has_key :: "pyval \<Rightarrow> string \<Rightarrow> bool" where
  "dict_has_key v key = (case v of PDict kvs \<Rightarrow> key \<in> set (map fst kvs) | _ \<Rightarrow> False)"

text \<open>
  \<open>try: body except Exception as e: return [TextContent(text=f"Error reading data: {str(e)}")]\<close>:
  the handler of the read branch, which lets no exception through.
\<close>

definition try_except_Exception :: "(exn + reply) \<times> 'w st \<Rightarrow> (exn + reply) \<times> 'w st" where
  "try_except_Exception r =
     (case r of
        (Inl e, s) \<Rightarrow> (Inr (text_reply ReadFailure (''Error reading data: '' @ str e)), s)
      | (Inr x, s) \<Rightarrow> (Inr x, s))"

section \<open>Operation Router: one handler per tool\<close>

text \<open>
  Each definition below is one branch of the \<open>if\<close>/\<open>elif\<close> chain of
  \<open>call_tool\<close>, in the order of the source. A branch resolves the path first, reads
  its arguments with their defaults, checks the required ones, and only then calls the
  backend inside its own \<open>try\<close>. \<open>Inl e\<close> is an exception leaving the branch.
\<close>

definition tool_apply_formula ::
  "'w backend \<Rightarrow> pylib \<Rightarrow> string \<Rightarrow> args \<Rightarrow> 'w st \<Rightarrow> (exn + reply) \<times> 'w st" where
  "tool_apply_formula be lib EXCEL_FILES_PATH arguments s =
     (case get_excel_path lib EXCEL_FILES_PATH (dict_get arguments ''filepath'' (PStr '''')) of
        Inl e \<Rightarrow> (Inl e, s)
      | Inr filepath \<Rightarrow>
          (let sheet_name = dict_get arguments ''sheet_name'' (PStr '''');
               cell = dict_get arguments ''cell'' (PStr '''');
               formula = dict_get arguments ''formula'' (PStr '''')
           in if \<not> py_all [PStr filepath, sheet_name, cell, formula]
              then (Inr missing_required, s)
              else try_except [ValidationError, CalculationError]
                     (case invoke be
                             (Call ''validate_formula_impl''
                                [PStr filepath, sheet_name, cell, formula] []) s of
                        (Inl e, s1) \<Rightarrow> (Inl e, s1)
                      | (Inr validation, s1) \<Rightarrow>
                          if dict_has_key validation ''error''
                          then (case subscript lib validation ''error'' of
                                  Inl e \<Rightarrow> (Inl e, s1)
                                | Inr err \<Rightarrow>
                                    (Inr (text_reply DomainFailure
                                            (''Error: '' @ py_str lib err)), s1))
                          else call_for_message be lib
                                 (Call ''apply_formula_impl''
                                    [PStr filepath, sheet_name, cell, formula] []) s1)))"

definition tool_validate_formula_syntax ::
  "'w backend \<Rightarrow> pylib \<Rightarrow> string \<Rightarrow> args \<Rightarrow> 'w st \<Rightarrow> (exn + reply) \<times> 'w st" where
  "tool_validate_formula_syntax be lib EXCEL_FILES_PATH arguments s =
     (case get_excel_path lib EXCEL_FILES_PATH (dict_get arguments ''filepath'' (PStr '''')) of
        Inl e \<Rightarrow> (Inl e, s)
      | Inr filepath \<Rightarrow>
          (let sheet_name = dict_get arguments ''sheet_name'' (PStr '''');
               cell = dict_get arguments ''cell'' (PStr '''');
               formula = dict_get arguments ''formula'' (PStr '''')
           in if \<not> py_all [PStr filepath, sheet_name, cell, formula]
              then (Inr missing_required, s)
              else try_except [ValidationError, CalculationError]
                     (call_for_message be lib
                        (Call ''validate_formula_impl'' [PStr filepath, sheet_name, cell, formula] []) s)))"

definition tool_format_range ::
  "'w backend \<Rightarrow> pylib \<Rightarrow> string \<Rightarrow> args \<Rightarrow> 'w st \<Rightarrow> (exn + reply) \<times> 'w st" where
  "tool_format_range be lib EXCEL_FILES_PATH arguments s =
     (case get_excel_path lib EXCEL_FILES_PATH (dict_get arguments ''filepath'' (PStr '''')) of
        Inl e \<Rightarrow> (Inl e, s)
      | Inr filepath \<Rightarrow>
          (let sheet_name = dict_get arguments ''sheet_name'' (PStr '''');
               start_cell = dict_get arguments ''start_cell'' (PStr '''')
           in if \<not> py_all [PStr filepath, sheet_name, start_cell]
              then (Inr missing_required, s)
              else try_except [ValidationError, FormattingError]
                     (case invoke be
                             (Call ''format_range_func'' []
                                [(''filepath'', PStr filepath),
                                 (''sheet_name'', sheet_name),
                                 (''start_cell'', start_cell),
                                 (''end_cell'', dict_get_none arguments ''end_cell''),
                                 (''bold'', dict_get arguments ''bold'' (PBool False)),
                                 (''italic'', dict_get arguments ''italic'' (PBool False)),
                                 (''underline'', dict_get arguments ''underline'' (PBool False)),
                                 (''font_size'', dict_get_none arguments ''font_size''),
                                 (''font_color'', dict_get_none arguments ''font_color''),
                                 (''bg_color'', dict_get_none arguments ''bg_color''),
                                 (''border_style'', dict_get_none arguments ''border_style''),
                                 (''border_color'', dict_get_none arguments ''border_color''),
                                 (''number_format'', dict_get_none arguments ''number_format''),
                                 (''alignment'', dict_get_none arguments ''alignment''),
                                 (''wrap_text'', dict_get arguments ''wrap_text'' (PBool False)),
                                 (''merge_cells'', dict_get arguments ''merge_cells'' (PBool False)),
                                 (''protection'', dict_get_none arguments ''protection''),
                                 (''conditional_format'',
                                    dict_get_none arguments ''conditional_format'')]) s of
                        (Inl e, s1) \<Rightarrow> (Inl e, s1)
                      | (Inr result, s1) \<Rightarrow>
                          (Inr (text_reply Success ''Range formatted successfully''), s1))))"

definition tool_read_data_from_excel ::
  "'w backend \<Rightarrow> pylib \<Rightarrow> string \<Rightarrow> args \<Rightarrow> 'w st \<Rightarrow> (exn + reply) \<times> 'w st" where
  "tool_read_data_from_excel be lib EXCEL_FILES_PATH arguments s =
     (case get_excel_path lib EXCEL_FILES_PATH (dict_get arguments ''filepath'' (PStr '''')) of
        Inl e \<Rightarrow> (Inl e, s)
      | Inr filepath \<Rightarrow>
          (let sheet_name = dict_get arguments ''sheet_name'' (PStr '''');
               start_cell = dict_get arguments ''start_cell'' (PStr ''A1'');
               end_cell = dict_get_none arguments ''end_cell'';
               preview_only = dict_get arguments ''preview_only'' (PBool False)
           in if \<not> py_all [PStr filepath, sheet_name]
              then (Inr missing_required, s)
              else try_except_Exception
                     (case invoke be
                             (Call ''read_excel_range''
                                [PStr filepath, sheet_name, start_cell, end_cell,
                                 preview_only] []) s of
                        (Inl e, s1) \<Rightarrow> (Inl e, s1)
                      | (Inr result, s1) \<Rightarrow>
                          if \<not> truthy result
                          then (Inr (text_reply NoData
                                       ''No data found in specified range''), s1)
                          else (case py_iter lib result of
                                  Inl e \<Rightarrow> (Inl e, s1)
                                | Inr rows \<Rightarrow>
                                    (Inr (text_reply Success
                                            (join_lines (map (py_str lib) rows))), s1)))))"

definition tool_write_data_to_excel ::
  "'w backend \<Rightarrow> pylib \<Rightarrow> string \<Rightarrow> args \<Rightarrow> 'w st \<Rightarrow> (exn + reply) \<times> 'w st" where
  "tool_write_data_to_excel be lib EXCEL_FILES_PATH arguments s =
     (case get_excel_path lib EXCEL_FILES_PATH (dict_get arguments ''filepath'' (PStr '''')) of
        Inl e \<Rightarrow> (Inl e, s)
      | Inr filepath \<Rightarrow>
          (let sheet_name = dict_get arguments ''sheet_name'' (PStr '''');
               data = dict_get arguments ''data'' (PList []);
               start_cell = dict_get arguments ''start_cell'' (PStr ''A1'');
               write_headers = dict_get arguments ''write_headers'' (PBool True)
           in if \<not> py_all [PStr filepath, sheet_name, data]
              then (Inr missing_required, s)
              else try_except [ValidationError, DataError]
                     (call_for_message be lib
                        (Call ''write_data'' [PStr filepath, sheet_name, data, start_cell, write_headers] []) s)))"

definition tool_create_workbook ::
  "'w backend \<Rightarrow> pylib \<Rightarrow> string \<Rightarrow> args \<Rightarrow> 'w st \<Rightarrow> (exn + reply) \<times> 'w st" where
  "tool_create_workbook be lib EXCEL_FILES_PATH arguments s =
     (case get_excel_path lib EXCEL_FILES_PATH (dict_get arguments ''filepath'' (PStr '''')) of
        Inl e \<Rightarrow> (Inl e, s)
      | Inr filepath \<Rightarrow>
          (if \<not> truthy (PStr filepath)
           then (Inr missing_filepath, s)
           else try_except [WorkbookError]
                  (case invoke be (Call ''create_workbook_impl'' [PStr filepath] []) s of
                     (Inl e, s1) \<Rightarrow> (Inl e, s1)
                   | (Inr result, s1) \<Rightarrow>
                       (Inr (text_reply Success (''Created workbook at '' @ filepath)), s1))))"

definition tool_create_worksheet ::
  "'w backend \<Rightarrow> pylib \<Rightarrow> string \<Rightarrow> args \<Rightarrow> 'w st \<Rightarrow> (exn + reply) \<times> 'w st" where
  "tool_create_worksheet be lib EXCEL_FILES_PATH arguments s =
     (case get_excel_path lib EXCEL_FILES_PATH (dict_get arguments ''filepath'' (PStr '''')) of
        Inl e \<Rightarrow> (Inl e, s)
      | Inr filepath \<Rightarrow>
          (let sheet_name = dict_get arguments ''sheet_name'' (PStr '''')
           in if \<not> py_all [PStr filepath, sheet_name]
              then (Inr missing_required, s)
              else try_except [ValidationError, WorkbookError]
                     (call_for_message be lib
                        (Call ''create_worksheet_impl'' [PStr filepath, sheet_name] []) s)))"

definition tool_create_chart ::
  "'w backend \<Rightarrow> pylib \<Rightarrow> string \<Rightarrow> args \<Rightarrow> 'w st \<Rightarrow> (exn + reply) \<times> 'w st" where
  "tool_create_chart be lib EXCEL_FILES_PATH arguments s =
     (case get_excel_path lib EXCEL_FILES_PATH (dict_get arguments ''filepath'' (PStr '''')) of
        Inl e \<Rightarrow> (Inl e, s)
      | Inr filepath \<Rightarrow>
          (let sheet_name = dict_get arguments ''sheet_name'' (PStr '''');
               data_range = dict_get arguments ''data_range'' (PStr '''');
               chart_type = dict_get arguments ''chart_type'' (PStr '''');
               target_cell = dict_get arguments ''target_cell'' (PStr '''');
               title = dict_get arguments ''title'' (PStr '''');
               x_axis = dict_get arguments ''x_axis'' (PStr '''');
               y_axis = dict_get arguments ''y_axis'' (PStr '''')
           in if \<not> py_all [PStr filepath, sheet_name, data_range, chart_type, target_cell]
              then (Inr missing_required, s)
              else try_except [ValidationError, ChartError]
                     (call_for_message be lib
                        (Call ''create_chart_impl'' []
                           [(''filepath'', PStr filepath),
                            (''sheet_name'', sheet_name),
                            (''data_range'', data_range),
                            (''chart_type'', chart_type),
                            (''target_cell'', target_cell),
                            (''title'', title),
                            (''x_axis'', x_axis),
                            (''y_axis'', y_axis)]) s)))"

definition tool_create_pivot_table ::
  "'w backend \<Rightarrow> pylib \<Rightarrow> string \<Rightarrow> args \<Rightarrow> 'w st \<Rightarrow> (exn + reply) \<times> 'w st" where
  "tool_create_pivot_table be lib EXCEL_FILES_PATH arguments s =
     (case get_excel_path lib EXCEL_FILES_PATH (dict_get arguments ''filepath'' (PStr '''')) of
        Inl e \<Rightarrow> (Inl e, s)
      | Inr filepath \<Rightarrow>
          (let sheet_name = dict_get arguments ''sheet_name'' (PStr '''');
               data_range = dict_get arguments ''data_range'' (PStr '''');
               rows = dict_get arguments ''rows'' (PList []);
               values = dict_get arguments ''values'' (PList []);
               columns = dict_get arguments ''columns'' (PList []);
               agg_func = dict_get arguments ''agg_func'' (PStr ''mean'')
           in if \<not> py_all [PStr filepath, sheet_name, data_range, rows, values]
              then (Inr missing_required, s)
              else try_except [ValidationError, PivotError]
                     (call_for_message be lib
                        (Call ''create_pivot_table_impl'' []
                           [(''filepath'', PStr filepath),
                            (''sheet_name'', sheet_name),
                            (''data_range'', data_range),
                            (''rows'', rows),
                            (''values'', values),
                            (''columns'', if truthy columns then columns else PList []),
                            (''agg_func'', agg_func)]) s)))"

definition tool_copy_worksheet ::
  "'w backend \<Rightarrow> pylib \<Rightarrow> string \<Rightarrow> args \<Rightarrow> 'w st \<Rightarrow> (exn + reply) \<times> 'w st" where
  "tool_copy_worksheet be lib EXCEL_FILES_PATH arguments s =
     (case get_excel_path lib EXCEL_FILES_PATH (dict_get arguments ''filepath'' (PStr '''')) of
        Inl e \<Rightarrow> (Inl e, s)
      | Inr filepath \<Rightarrow>
          (let source_sheet = dict_get arguments ''source_sheet'' (PStr '''');
               target_sheet = dict_get arguments ''target_sheet'' (PStr '''')
           in if \<not> py_all [PStr filepath, source_sheet, target_sheet]
              then (Inr missing_required, s)
              else try_except [ValidationError, SheetError]
                     (call_for_message be lib
                        (Call ''copy_sheet'' [PStr filepath, source_sheet, target_sheet] []) s)))"

definition tool_delete_worksheet ::
  "'w backend \<Rightarrow> pylib \<Rightarrow> string \<Rightarrow> args \<Rightarrow> 'w st \<Rightarrow> (exn + reply) \<times> 'w st" where
  "tool_delete_worksheet be lib EXCEL_FILES_PATH arguments s =
     (case get_excel_path lib EXCEL_FILES_PATH (dict_get arguments ''filepath'' (PStr '''')) of
        Inl e \<Rightarrow> (Inl e, s)
      | Inr filepath \<Rightarrow>
          (let sheet_name = dict_get arguments ''sheet_name'' (PStr '''')
           in if \<not> py_all [PStr filepath, sheet_name]
              then (Inr missing_required, s)
              else try_except [ValidationError, SheetError]
                     (call_for_message be lib
                        (Call ''delete_sheet'' [PStr filepath, sheet_name] []) s)))"

definition tool_rename_worksheet ::
  "'w backend \<Rightarrow> pylib \<Rightarrow> string \<Rightarrow> args \<Rightarrow> 'w st \<Rightarrow> (exn + reply) \<times> 'w st" where
  "tool_rename_worksheet be lib EXCEL_FILES_PATH arguments s =
     (case get_excel_path lib EXCEL_FILES_PATH (dict_get arguments ''filepath'' (PStr '''')) of
        Inl e \<Rightarrow> (Inl e, s)
      | Inr filepath \<Rightarrow>
          (let old_name = dict_get arguments ''old_name'' (PStr '''');
               new_name = dict_get arguments ''new_name'' (PStr '''')
           in if \<not> py_all [PStr filepath, old_name, new_name]
              then (Inr missing_required, s)
              else try_except [ValidationError, SheetError]
                     (call_for_message be lib
                        (Call ''rename_sheet'' [PStr filepath, old_name, new_name] []) s)))"

definition tool_get_workbook_metadata ::
  "'w backend \<Rightarrow> pylib \<Rightarrow> string \<Rightarrow> args \<Rightarrow> 'w st \<Rightarrow> (exn + reply) \<times> 'w st" where
  "tool_get_workbook_metadata be lib EXCEL_FILES_PATH arguments s =
     (case get_excel_path lib EXCEL_FILES_PATH (dict_get arguments ''filepath'' (PStr '''')) of
        Inl e \<Rightarrow> (Inl e, s)
      | Inr filepath \<Rightarrow>
          (let include_ranges = dict_get arguments ''include_ranges'' (PBool False)
           in if \<not> truthy (PStr filepath)
              then (Inr missing_filepath, s)
              else try_except [WorkbookError]
                     (case invoke be
                             (Call ''get_workbook_info'' [PStr filepath]
                                [(''include_ranges'', include_ranges)]) s of
                        (Inl e, s1) \<Rightarrow> (Inl e, s1)
                      | (Inr result, s1) \<Rightarrow>
                          (Inr (text_reply Success (py_str lib result)), s1))))"

definition tool_merge_cells ::
  "'w backend \<Rightarrow> pylib \<Rightarrow> string \<Rightarrow> args \<Rightarrow> 'w st \<Rightarrow> (exn + reply) \<times> 'w st" where
  "tool_merge_cells be lib EXCEL_FILES_PATH arguments s =
     (case get_excel_path lib EXCEL_FILES_PATH (dict_get arguments ''filepath'' (PStr '''')) of
        Inl e \<Rightarrow> (Inl e, s)
      | Inr filepath \<Rightarrow>
          (let sheet_name = dict_get arguments ''sheet_name'' (PStr '''');
               start_cell = dict_get arguments ''start_cell'' (PStr '''');
               end_cell = dict_get arguments ''end_cell'' (PStr '''')
           in if \<not> py_all [PStr filepath, sheet_name, start_cell, end_cell]
              then (Inr missing_required, s)
              else try_except [ValidationError, SheetError]
                     (call_for_message be lib
                        (Call ''merge_range'' [PStr filepath, sheet_name, start_cell, end_cell] []) s)))"

definition tool_unmerge_cells ::
  "'w backend \<Rightarrow> pylib \<Rightarrow> string \<Rightarrow> args \<Rightarrow> 'w st \<Rightarrow> (exn + reply) \<times> 'w st" where
  "tool_unmerge_cells be lib EXCEL_FILES_PATH arguments s =
     (case get_excel_path lib EXCEL_FILES_PATH (dict_get arguments ''filepath'' (PStr '''')) of
        Inl e \<Rightarrow> (Inl e, s)
      | Inr filepath \<Rightarrow>
          (let sheet_name = dict_get arguments ''sheet_name'' (PStr '''');
               start_cell = dict_get arguments ''start_cell'' (PStr '''');
               end_cell = dict_get arguments ''end_cell'' (PStr '''')
           in if \<not> py_all [PStr filepath, sheet_name, start_cell, end_cell]
              then (Inr missing_required, s)
              else try_except [ValidationError, SheetError]
                     (call_for_message be lib
                        (Call ''unmerge_range'' [PStr filepath, sheet_name, start_cell, end_cell] []) s)))"

definition tool_copy_range ::
  "'w backend \<Rightarrow> pylib \<Rightarrow> string \<Rightarrow> args \<Rightarrow> 'w st \<Rightarrow> (exn + reply) \<times> 'w st" where
  "tool_copy_range be lib EXCEL_FILES_PATH arguments s =
     (case get_excel_path lib EXCEL_FILES_PATH (dict_get arguments ''filepath'' (PStr '''')) of
        Inl e \<Rightarrow> (Inl e, s)
      | Inr filepath \<Rightarrow>
          (let sheet_name = dict_get arguments ''sheet_name'' (PStr '''');
               source_start = dict_get arguments ''source_start'' (PStr '''');
               source_end = dict_get arguments ''source_end'' (PStr '''');
               target_start = dict_get arguments ''target_start'' (PStr '''');
               target_sheet = dict_get_none arguments ''target_sheet''
           in if \<not> py_all [PStr filepath, sheet_name, source_start, source_end, target_start]
              then (Inr missing_required, s)
              else try_except [ValidationError, SheetError]
                     (call_for_message be lib
                        (Call ''copy_range_operation'' [PStr filepath, sheet_name, source_start, source_end, target_start, target_sheet] []) s)))"

definition tool_delete_range ::
  "'w backend \<Rightarrow> pylib \<Rightarrow> string \<Rightarrow> args \<Rightarrow> 'w st \<Rightarrow> (exn + reply) \<times> 'w st" where
  "tool_delete_range be lib EXCEL_FILES_PATH arguments s =
     (case get_excel_path lib EXCEL_FILES_PATH (dict_get arguments ''filepath'' (PStr '''')) of
        Inl e \<Rightarrow> (Inl e, s)
      | Inr filepath \<Rightarrow>
          (let sheet_name = dict_get arguments ''sheet_name'' (PStr '''');
               start_cell = dict_get arguments ''start_cell'' (PStr '''');
               end_cell = dict_get arguments ''end_cell'' (PStr '''');
               shift_direction = dict_get arguments ''shift_direction'' (PStr ''up'')
           in if \<not> py_all [PStr filepath, sheet_name, start_cell, end_cell]
              then (Inr missing_required, s)
              else try_except [ValidationError, SheetError]
                     (call_for_message be lib
                        (Call ''delete_range_operation'' [PStr filepath, sheet_name, start_cell, end_cell, shift_direction] []) s)))"

definition tool_validate_excel_range ::
  "'w backend \<Rightarrow> pylib \<Rightarrow> string \<Rightarrow> args \<Rightarrow> 'w st \<Rightarrow> (exn + reply) \<times> 'w st" where
  "tool_validate_excel_range be lib EXCEL_FILES_PATH arguments s =
     (case get_excel_path lib EXCEL_FILES_PATH (dict_get arguments ''filepath'' (PStr '''')) of
        Inl e \<Rightarrow> (Inl e, s)
      | Inr filepath \<Rightarrow>
          (let sheet_name = dict_get arguments ''sheet_name'' (PStr '''');
               start_cell = dict_get arguments ''start_cell'' (PStr '''');
               end_cell = dict_get_none arguments ''end_cell''
           in if \<not> py_all [PStr filepath, sheet_name, start_cell]
              then (Inr missing_required, s)
              else try_except [ValidationError]
                     (let range_str =
                            (if \<not> truthy end_cell then start_cell
                             else PStr (py_str lib start_cell @ '':'' @ py_str lib end_cell))
                      in call_for_message be lib
                           (Call ''validate_range_impl''
                              [PStr filepath, sheet_name, range_str] []) s)))"

text \<open>
  The chain of comparisons on the tool name, with the final \<open>else\<close> for a name
  that matches none.
\<close>

definition dispatch ::
  "'w backend \<Rightarrow> pylib \<Rightarrow> string \<Rightarrow> string \<Rightarrow> args \<Rightarrow> 'w st \<Rightarrow> (exn + reply) \<times> 'w st" where
  "dispatch be lib EXCEL_FILES_PATH name arguments s =
     (
      if name = ''apply_formula''
        then tool_apply_formula be lib EXCEL_FILES_PATH arguments s
      else if name = ''validate_formula_syntax''
        then tool_validate_formula_syntax be lib EXCEL_FILES_PATH arguments s
      else if name = ''format_range''
        then tool_format_range be lib EXCEL_FILES_PATH arguments s
      else if name = ''read_data_from_excel''
        then tool_read_data_from_excel be lib EXCEL_FILES_PATH arguments s
      else if name = ''write_data_to_excel''
        then tool_write_data_to_excel be lib EXCEL_FILES_PATH arguments s
      else if name = ''create_workbook''
        then tool_create_workbook be lib EXCEL_FILES_PATH arguments s
      else if name = ''create_worksheet''
        then tool_create_worksheet be lib EXCEL_FILES_PATH arguments s
      else if name = ''create_chart''
        then tool_create_chart be lib EXCEL_FILES_PATH arguments s
      else if name = ''create_pivot_table''
        then tool_create_pivot_table be lib EXCEL_FILES_PATH arguments s
      else if name = ''copy_worksheet''
        then tool_copy_worksheet be lib EXCEL_FILES_PATH arguments s
      else if name = ''delete_worksheet''
        then tool_delete_worksheet be lib EXCEL_FILES_PATH arguments s
      else if name = ''rename_worksheet''
        then tool_rename_worksheet be lib EXCEL_FILES_PATH arguments s
      else if name = ''get_workbook_metadata''
        then tool_get_workbook_metadata be lib EXCEL_FILES_PATH arguments s
      else if name = ''merge_cells''
        then tool_merge_cells be lib EXCEL_FILES_PATH arguments s
      else if name = ''unmerge_cells''
        then tool_unmerge_cells be lib EXCEL_FILES_PATH arguments s
      else if name = ''copy_range''
        then tool_copy_range be lib EXCEL_FILES_PATH arguments s
      else if name = ''delete_range''
        then tool_delete_range be lib EXCEL_FILES_PATH arguments s
      else if name = ''validate_excel_range''
        then tool_validate_excel_range be lib EXCEL_FILES_PATH arguments s
      else (Inr (text_reply UnknownTool (''Unknown tool: '' @ name)), s))"

text \<open>
  The first statement of \<open>call_tool\<close>,
  \<open>logger.info(f"Calling tool: {name} with arguments: {arguments}")\<close>. The f-string is
  evaluated before the logger is called, and the statement stands before the outer
  \<open>try\<close>: an exception raised while the bag is formatted leaves \<open>call_tool\<close>.
  The result is the logged line. (Writing the line to the log file and the error stream
  is not modelled; the logging module reports a failing handler itself.)
\<close>

definition log_call :: "pylib \<Rightarrow> string \<Rightarrow> args \<Rightarrow> exn + string" where
  "log_call lib name arguments =
     (case repr_arguments lib arguments of
        Inl e \<Rightarrow> Inl e
      | Inr a \<Rightarrow> Inr (''Calling tool: '' @ name @ '' with arguments: '' @ a))"

text \<open>
  \<open>call_tool\<close>: the log line, then the chain inside the outer \<open>try\<close>, whose
  \<open>except Exception\<close> turns whatever escapes a branch into a reply. \<open>Inl e\<close> is an
  exception leaving \<open>call_tool\<close>.
\<close>

definition call_tool ::
  "'w backend \<Rightarrow> pylib \<Rightarrow> string \<Rightarrow> string \<Rightarrow> args \<Rightarrow> 'w st
     \<Rightarrow> (exn + reply) \<times> 'w st" where
  "call_tool be lib EXCEL_FILES_PATH name arguments s =
     (case log_call lib name arguments of
        Inl e \<Rightarrow> (Inl e, s)
      | Inr logged \<Rightarrow>
          (case dispatch be lib EXCEL_FILES_PATH name arguments s of
             (Inl e, s') \<Rightarrow>
               (Inr (text_reply Unexpected (''Error executing tool: '' @ str e)), s')
           | (Inr r, s') \<Rightarrow> (Inr r, s')))"

section \<open>Tool Catalog\<close>

text \<open>
  \<open>list_tools\<close>: every descriptor with its name, description, the (name, type) pairs
  of its schema's properties and its list of required parameters. The prose description
  of each single property is left out.
\<close>

record Tool =
  tool_name :: string
  description :: string
  properties :: "(string \<times> string) list"
  required :: "string list"

definition list_tools :: "Tool list" where
  "list_tools =
     [\<lparr>tool_name = ''apply_formula'',
       description = ''Apply Excel formula to cell'',
       properties = [(''filepath'', ''string''), (''sheet_name'', ''string''),
                     (''cell'', ''string''), (''formula'', ''string'')],
       required = [''filepath'', ''sheet_name'', ''cell'', ''formula'']\<rparr>,
      \<lparr>tool_name = ''validate_formula_syntax'',
       description = ''Validate Excel formula syntax without applying it'',
       properties = [(''filepath'', ''string''), (''sheet_name'', ''string''),
                     (''cell'', ''string''), (''formula'', ''string'')],
       required = [''filepath'', ''sheet_name'', ''cell'', ''formula'']\<rparr>,
      \<lparr>tool_name = ''format_range'',
       description = ''Apply formatting to a range of cells'',
       properties = [(''filepath'', ''string''), (''sheet_name'', ''string''),
                     (''start_cell'', ''string''), (''end_cell'', ''string''),
                     (''bold'', ''boolean''), (''italic'', ''boolean''),
                     (''font_size'', ''integer''), (''font_color'', ''string''),
                     (''bg_color'', ''string'')],
       required = [''filepath'', ''sheet_name'', ''start_cell'']\<rparr>,
      \<lparr>tool_name = ''read_data_from_excel'',
       description = ''Read data from Excel worksheet'',
       properties = [(''filepath'', ''string''), (''sheet_name'', ''string''),
                     (''start_cell'', ''string''), (''end_cell'', ''string''),
                     (''preview_only'', ''boolean'')],
       required = [''filepath'', ''sheet_name'']\<rparr>,
      \<lparr>tool_name = ''write_data_to_excel'',
       description = ''Write data to Excel worksheet'',
       properties = [(''filepath'', ''string''), (''sheet_name'', ''string''),
                     (''data'', ''array''), (''start_cell'', ''string''),
                     (''write_headers'', ''boolean'')],
       required = [''filepath'', ''sheet_name'', ''data'']\<rparr>,
      \<lparr>tool_name = ''create_workbook'',
       description = ''Create new Excel workbook'',
       properties = [(''filepath'', ''string'')],
       required = [''filepath'']\<rparr>,
      \<lparr>tool_name = ''create_worksheet'',
       description = ''Create new worksheet in workbook'',
       properties = [(''filepath'', ''string''), (''sheet_name'', ''string'')],
       required = [''filepath'', ''sheet_name'']\<rparr>,
      \<lparr>tool_name = ''create_chart'',
       description = ''Create chart in worksheet'',
       properties = [(''filepath'', ''string''), (''sheet_name'', ''string''),
                     (''data_range'', ''string''), (''chart_type'', ''string''),
                     (''target_cell'', ''string''), (''title'', ''string''),
                     (''x_axis'', ''string''), (''y_axis'', ''string'')],
       required = [''filepath'', ''sheet_name'', ''data_range'', ''chart_type'',
                   ''target_cell'']\<rparr>,
      \<lparr>tool_name = ''create_pivot_table'',
       description = ''Create pivot table in worksheet'',
       properties = [(''filepath'', ''string''), (''sheet_name'', ''string''),
                     (''data_range'', ''string''), (''rows'', ''array''),
                     (''values'', ''array''), (''columns'', ''array''),
                     (''agg_func'', ''string'')],
       required = [''filepath'', ''sheet_name'', ''data_range'', ''rows'', ''values'']\<rparr>,
      \<lparr>tool_name = ''copy_worksheet'',
       description = ''Copy worksheet within workbook'',
       properties = [(''filepath'', ''string''), (''source_sheet'', ''string''),
                     (''target_sheet'', ''string'')],
       required = [''filepath'', ''source_sheet'', ''target_sheet'']\<rparr>,
      \<lparr>tool_name = ''delete_worksheet'',
       description = ''Delete worksheet from workbook'',
       properties = [(''filepath'', ''string''), (''sheet_name'', ''string'')],
       required = [''filepath'', ''sheet_name'']\<rparr>,
      \<lparr>tool_name = ''rename_worksheet'',
       description = ''Rename worksheet in workbook'',
       properties = [(''filepath'', ''string''), (''old_name'', ''string''),
                     (''new_name'', ''string'')],
       required = [''filepath'', ''old_name'', ''new_name'']\<rparr>,
      \<lparr>tool_name = ''get_workbook_metadata'',
       description = ''Get metadata about workbook including sheets, ranges, etc.'',
       properties = [(''filepath'', ''string''), (''include_ranges'', ''boolean'')],
       required = [''filepath'']\<rparr>,
      \<lparr>tool_name = ''merge_cells'',
       description = ''Merge a range of cells'',
       properties = [(''filepath'', ''string''), (''sheet_name'', ''string''),
                     (''start_cell'', ''string''), (''end_cell'', ''string'')],
       required = [''filepath'', ''sheet_name'', ''start_cell'', ''end_cell'']\<rparr>,
      \<lparr>tool_name = ''unmerge_cells'',
       description = ''Unmerge a range of cells'',
       properties = [(''filepath'', ''string''), (''sheet_name'', ''string''),
                     (''start_cell'', ''string''), (''end_cell'', ''string'')],
       required = [''filepath'', ''sheet_name'', ''start_cell'', ''end_cell'']\<rparr>,
      \<lparr>tool_name = ''copy_range'',
       description = ''Copy a range of cells to another location'',
       properties = [(''filepath'', ''string''), (''sheet_name'', ''string''),
                     (''source_start'', ''string''), (''source_end'', ''string''),
                     (''target_start'', ''string''), (''target_sheet'', ''string'')],
       required = [''filepath'', ''sheet_name'', ''source_start'', ''source_end'',
                   ''target_start'']\<rparr>,
      \<lparr>tool_name = ''delete_range'',
       description = ''Delete a range of cells and shift remaining cells'',
       properties = [(''filepath'', ''string''), (''sheet_name'', ''string''),
                     (''start_cell'', ''string''), (''end_cell'', ''string''),
                     (''shift_direction'', ''string'')],
       required = [''filepath'', ''sheet_name'', ''start_cell'', ''end_cell'']\<rparr>,
      \<lparr>tool_name = ''validate_excel_range'',
       description = ''Validate if a range exists and is properly formatted'',
       properties = [(''filepath'', ''string''), (''sheet_name'', ''string''),
                     (''start_cell'', ''string''), (''end_cell'', ''string'')],
       required = [''filepath'', ''sheet_name'', ''start_cell'']\<rparr>]"

definition tool_names :: "string list" where
  "tool_names = map tool_name list_tools"

text \<open>
  The exception classes named by the \<open>except\<close> clause at the backend call site of
  each tool other than \<open>read_data_from_excel\<close> (whose clause is
  \<open>except Exception\<close>), collected from the source for the statements below.
\<close>

definition caught_at :: "string \<Rightarrow> exn_class list" where
  "caught_at name =
     (if name = ''apply_formula'' then [ValidationError, CalculationError]
      else if name = ''validate_formula_syntax'' then [ValidationError, CalculationError]
      else if name = ''format_range'' then [ValidationError, FormattingError]
      else if name = ''write_data_to_excel'' then [ValidationError, DataError]
      else if name = ''create_workbook'' then [WorkbookError]
      else if name = ''create_worksheet'' then [ValidationError, WorkbookError]
      else if name = ''create_chart'' then [ValidationError, ChartError]
      else if name = ''create_pivot_table'' then [ValidationError, PivotError]
      else if name = ''copy_worksheet'' then [ValidationError, SheetError]
      else if name = ''delete_worksheet'' then [ValidationError, SheetError]
      else if name = ''rename_worksheet'' then [ValidationError, SheetError]
      else if name = ''get_workbook_metadata'' then [WorkbookError]
      else if name = ''merge_cells'' then [ValidationError, SheetError]
      else if name = ''unmerge_cells'' then [ValidationError, SheetError]
      else if name = ''copy_range'' then [ValidationError, SheetError]
      else if name = ''delete_range'' then [ValidationError, SheetError]
      else if name = ''validate_excel_range'' then [ValidationError]
      else [])"

section \<open>Resource Reader\<close>

text \<open>
  \<open>read_resource\<close> hands \<open>get_workbook_info\<close> to a worker thread and waits for it
  with \<open>asyncio.wait_for(..., timeout=15.0)\<close>, inside
  \<open>with ThreadPoolExecutor() as executor\<close>. Time is counted in milliseconds from the
  start of the call. A job is the time the worker needs together with what it produces.
  \<open>wait_for\<close> yields the result at the moment the worker is done when that is within
  the timeout, and raises \<open>TimeoutError\<close> (\<open>None\<close>) at the timeout otherwise; the
  worker thread is not stopped by that. Leaving the \<open>with\<close> block runs the executor's
  \<open>__exit__\<close>, which is \<open>shutdown(wait=True)\<close>: it returns once the worker thread
  has finished.
\<close>

type_synonym 'a job = "nat \<times> 'a"

definition wait_for :: "'a job \<Rightarrow> nat \<Rightarrow> nat \<times> 'a option" where
  "wait_for job timeout =
     (case job of (d, r) \<Rightarrow> if d \<le> timeout then (d, Some r) else (timeout, None))"

definition shutdown_wait :: "'a job \<Rightarrow> nat \<Rightarrow> nat" where
  "shutdown_wait job now = max now (fst job)"

text \<open>The inner \<open>get_info\<close>, which turns an exception of the accessor into a string.\<close>

definition get_info :: "exn + pyval \<Rightarrow> pyval" where
  "get_info r =
     (case r of
        Inr v \<Rightarrow> v
      | Inl e \<Rightarrow> PStr (''Error reading workbook: '' @ str e))"

text \<open>
  \<open>read_resource\<close>, given \<open>os.path.exists\<close> and, for each path, how long
  \<open>get_workbook_info(path, include_ranges=True)\<close> runs and how it ends. The result is
  the returned text and the time at which the call returns.
\<close>

definition read_resource ::
  "pylib \<Rightarrow> string \<Rightarrow> (string \<Rightarrow> bool) \<Rightarrow> (string \<Rightarrow> (exn + pyval) job) \<Rightarrow> string
     \<Rightarrow> string \<times> nat" where
  "read_resource lib EXCEL_FILES_PATH path_exists get_workbook_info uri =
     (if take 8 uri \<noteq> ''excel://''
      then (''Error reading resource: '' @ (''Invalid URI scheme: '' @ uri), 0)
      else
        (let encoded_file = drop 8 uri;
             file = unquote lib encoded_file
         in case get_excel_path lib EXCEL_FILES_PATH (PStr file) of
              Inl e \<Rightarrow> (''Error reading resource: '' @ str e, 0)
            | Inr file_path \<Rightarrow>
                if \<not> path_exists file_path
                then (''Error: File not found: '' @ file, 0)
                else
                  (let job = (case get_workbook_info file_path of
                                (d, r) \<Rightarrow> (d, get_info r))
                   in case wait_for job 15000 of
                        (now, Some result) \<Rightarrow>
                          (py_str lib result, shutdown_wait job now)
                      | (now, None) \<Rightarrow>
                          (''Error: Operation timed out while reading Excel file'',
                           shutdown_wait job now))))"

section \<open>Vocabulary of the statements\<close>

text \<open>
  An exception was raised by the backend during a call of \<open>call_tool\<close> when the log
  holds a backend call whose outcome is that exception.
\<close>

definition raised_in :: "log \<Rightarrow> exn \<Rightarrow> bool" where
  "raised_in lg e = (Inl e \<in> set (map snd lg))"

text \<open>What a call site whose \<open>except\<close> clause names \<open>classes\<close> makes of an exception.\<close>

definition handled_as :: "exn_class list \<Rightarrow> exn \<Rightarrow> exn + reply" where
  "handled_as classes e =
     (if cls e \<in> set classes then Inr (text_reply DomainFailure (''Error: '' @ str e))
      else Inl e)"

text \<open>
  What leaves a branch of a recognised tool: an exception, or a single text item that
  does not come from the final \<open>else\<close>.
\<close>

definition well_formed :: "exn + reply \<Rightarrow> bool" where
  "well_formed x =
     (case x of
        Inl e \<Rightarrow> True
      | Inr r \<Rightarrow> (\<exists>k t. k \<noteq> UnknownTool \<and> r = text_reply k t))"

text \<open>
  An integer that CPython's default limit on integer-to-string conversion refuses to
  print (more than 4300 decimal digits), at the top of a value or nested in it.
\<close>

definition int_max_str_digits :: nat where
  "int_max_str_digits = 4300"

primrec exceeds_digits :: "pyval \<Rightarrow> bool" where
  "exceeds_digits PNone = False"
| "exceeds_digits (PBool b) = False"
| "exceeds_digits (PInt i) = (10 ^ int_max_str_digits \<le> \<bar>i\<bar>)"
| "exceeds_digits (PStr s) = False"
| "exceeds_digits (PList xs) = (True \<in> set (map exceeds_digits xs))"
| "exceeds_digits (PDict kvs) = (True \<in> set (map snd (map (map_prod id exceeds_digits) kvs)))"

text \<open>An integer of 5001 decimal digits.\<close>

definition huge :: int where
  "huge = 10 ^ 5000"

text \<open>
  Concrete collaborators for the examples: a runtime whose \<open>unquote\<close> leaves a string
  without escapes as it is and that formats every bag; the same runtime with the digit
  limit, where formatting a bag that holds such an integer raises the \<open>ValueError\<close>;
  a backend that always succeeds with the message \<open>done\<close>; a backend that always
  raises a given exception; and a backend that always returns a given value.
\<close>

definition digit_limit_message :: string where
  "digit_limit_message =
     ''Exceeds the limit (4300 digits) for integer string conversion; '' @
     ''use sys.set_int_max_str_digits() to increase the limit''"

definition example_lib :: pylib where
  "example_lib =
     \<lparr>repr = (\<lambda>v. ''<object>''), fault_msg = (\<lambda>f. ''<fault>''), unquote = (\<lambda>s. s),
      repr_arguments = (\<lambda>a. Inr ''<dict>'')\<rparr>"

definition digit_limit_lib :: pylib where
  "digit_limit_lib =
     example_lib
       \<lparr>repr_arguments :=
          (\<lambda>a. if True \<in> exceeds_digits ` ran a
               then Inl (Exn OtherException digit_limit_message)
               else Inr ''<dict>'')\<rparr>"

definition ok_backend :: "unit backend" where
  "ok_backend c w = (Inr (PDict [(''message'', PStr ''done'')]), w)"

definition raising_backend :: "exn \<Rightarrow> unit backend" where
  "raising_backend e c w = (Inl e, w)"


text \<open>The backend calls a run of \<open>call_tool\<close> has logged, in order.\<close>

definition calls_made :: "'a \<times> 'w st \<Rightarrow> call list" where
  "calls_made x = map fst (snd (snd x))"

text \<open>A parameter that the bag does not hold, or holds with a value that tests false.\<close>

definition omitted_or_empty :: "args \<Rightarrow> string \<Rightarrow> bool" where
  "omitted_or_empty arguments key =
     (case arguments key of None \<Rightarrow> True | Some v \<Rightarrow> \<not> truthy v)"

section \<open>Path Resolver: claim C5\<close>

lemma get_excel_path_PStr:
  "get_excel_path lib root (PStr f) = Inr (if isabs f then f else path_join root f)"
  by (simp add: get_excel_path_def)

text \<open>
  Claim C5, as stated: an absolute path is returned unchanged, and every relative
  \<open>f\<close> resolves to the root, a separator and \<open>f\<close>. The second half fails for a
  configured root that already ends with the separator: \<open>os.path.join\<close> adds none.
\<close>

theorem get_excel_path_trailing_separator_counterexample:
  "\<not> isabs ''x.xlsx'' \<and>
   get_excel_path example_lib ''/data/'' (PStr ''x.xlsx'') = Inr ''/data/x.xlsx'' \<and>
   get_excel_path example_lib ''/data/'' (PStr ''x.xlsx'') \<noteq> Inr (''/data/'' @ ''/'' @ ''x.xlsx'')"
  by (simp add: get_excel_path_def isabs_def path_join_def endswith_sep_def)

text \<open>
  Claim C5, amended: an absolute path is returned unchanged; a relative \<open>f\<close> resolves
  to the root, a separator and \<open>f\<close> when the root is not empty and does not end with
  the separator (as the default \<open>./excel_files\<close>), and to the root directly followed
  by \<open>f\<close> otherwise.
\<close>

theorem get_excel_path_resolves:
  "(isabs p \<longrightarrow> get_excel_path lib root (PStr p) = Inr p) \<and>
   (\<not> isabs f \<longrightarrow>
      get_excel_path lib root (PStr f) =
        Inr (if root = [] \<or> endswith_sep root then root @ f else root @ ''/'' @ f))"
  by (simp add: get_excel_path_def path_join_def)

theorem get_excel_path_resolves_witness:
  "isabs ''/abs/path/x.xlsx'' \<and>
   get_excel_path example_lib default_EXCEL_FILES_PATH (PStr ''/abs/path/x.xlsx'')
     = Inr ''/abs/path/x.xlsx'' \<and>
   \<not> isabs ''x.xlsx'' \<and>
   get_excel_path example_lib default_EXCEL_FILES_PATH (PStr ''x.xlsx'')
     = Inr ''./excel_files/x.xlsx''"
  using get_excel_path_resolves
          [of "''/abs/path/x.xlsx''" example_lib default_EXCEL_FILES_PATH "''x.xlsx''"]
  by (simp add: isabs_def default_EXCEL_FILES_PATH_def endswith_sep_def)

section \<open>Shape of what a branch returns\<close>

lemma well_formed_Inl [simp]: "well_formed (Inl e)"
  by (simp add: well_formed_def)

lemma well_formed_text_reply [simp]: "well_formed (Inr (text_reply k t)) = (k \<noteq> UnknownTool)"
  by (auto simp: well_formed_def text_reply_def)

lemma well_formed_missing [simp]: "well_formed (Inr missing_required)" "well_formed (Inr missing_filepath)"
  by (simp_all add: missing_required_def missing_filepath_def)

lemma well_formed_TextContent_of: "k \<noteq> UnknownTool \<Longrightarrow> well_formed (TextContent_of lib k v)"
  by (cases v) (simp_all add: TextContent_of_def)

lemma well_formed_return_message [simp]: "well_formed (return_message lib result)"
  by (simp add: return_message_def well_formed_TextContent_of split: sum.split)

lemma well_formed_call_for_message [simp]: "well_formed (fst (call_for_message be lib c s))"
  by (simp add: call_for_message_def split: prod.split sum.split)

lemma well_formed_try_except [simp]:
  "well_formed (fst r) \<Longrightarrow> well_formed (fst (try_except classes r))"
  by (cases r) (auto simp: try_except_def split: sum.split)

lemma well_formed_try_except_Exception [simp]:
  "well_formed (fst r) \<Longrightarrow> well_formed (fst (try_except_Exception r))"
  by (cases r) (auto simp: try_except_Exception_def split: sum.split)

lemma wf_apply_formula: "well_formed (fst (tool_apply_formula be lib root arguments s))"
  by (simp add: tool_apply_formula_def Let_def split: sum.split prod.split)

lemma wf_validate_formula_syntax: "well_formed (fst (tool_validate_formula_syntax be lib root arguments s))"
  by (simp add: tool_validate_formula_syntax_def Let_def split: sum.split prod.split)

lemma wf_format_range: "well_formed (fst (tool_format_range be lib root arguments s))"
  by (simp add: tool_format_range_def Let_def split: sum.split prod.split)

lemma wf_read_data_from_excel: "well_formed (fst (tool_read_data_from_excel be lib root arguments s))"
  by (simp add: tool_read_data_from_excel_def Let_def split: sum.split prod.split)

lemma wf_write_data_to_excel: "well_formed (fst (tool_write_data_to_excel be lib root arguments s))"
  by (simp add: tool_write_data_to_excel_def Let_def split: sum.split prod.split)

lemma wf_create_workbook: "well_formed (fst (tool_create_workbook be lib root arguments s))"
  by (simp add: tool_create_workbook_def Let_def split: sum.split prod.split)

lemma wf_create_worksheet: "well_formed (fst (tool_create_worksheet be lib root arguments s))"
  by (simp add: tool_create_worksheet_def Let_def split: sum.split prod.split)

lemma wf_create_chart: "well_formed (fst (tool_create_chart be lib root arguments s))"
  by (simp add: tool_create_chart_def Let_def split: sum.split prod.split)

lemma wf_create_pivot_table: "well_formed (fst (tool_create_pivot_table be lib root arguments s))"
  by (simp add: tool_create_pivot_table_def Let_def split: sum.split prod.split)

lemma wf_copy_worksheet: "well_formed (fst (tool_copy_worksheet be lib root arguments s))"
  by (simp add: tool_copy_worksheet_def Let_def split: sum.split prod.split)

lemma wf_delete_worksheet: "well_formed (fst (tool_delete_worksheet be lib root arguments s))"
  by (simp add: tool_delete_worksheet_def Let_def split: sum.split prod.split)

lemma wf_rename_worksheet: "well_formed (fst (tool_rename_worksheet be lib root arguments s))"
  by (simp add: tool_rename_worksheet_def Let_def split: sum.split prod.split)

lemma wf_get_workbook_metadata: "well_formed (fst (tool_get_workbook_metadata be lib root arguments s))"
  by (simp add: tool_get_workbook_metadata_def Let_def split: sum.split prod.split)

lemma wf_merge_cells: "well_formed (fst (tool_merge_cells be lib root arguments s))"
  by (simp add: tool_merge_cells_def Let_def split: sum.split prod.split)

lemma wf_unmerge_cells: "well_formed (fst (tool_unmerge_cells be lib root arguments s))"
  by (simp add: tool_unmerge_cells_def Let_def split: sum.split prod.split)

lemma wf_copy_range: "well_formed (fst (tool_copy_range be lib root arguments s))"
  by (simp add: tool_copy_range_def Let_def split: sum.split prod.split)

lemma wf_delete_range: "well_formed (fst (tool_delete_range be lib root arguments s))"
  by (simp add: tool_delete_range_def Let_def split: sum.split prod.split)

lemma wf_validate_excel_range: "well_formed (fst (tool_validate_excel_range be lib root arguments s))"
  by (simp add: tool_validate_excel_range_def Let_def split: sum.split prod.split)

lemmas wf_tools = wf_apply_formula wf_validate_formula_syntax wf_format_range
  wf_read_data_from_excel wf_write_data_to_excel wf_create_workbook wf_create_worksheet
  wf_create_chart wf_create_pivot_table wf_copy_worksheet wf_delete_worksheet
  wf_rename_worksheet wf_get_workbook_metadata wf_merge_cells wf_unmerge_cells
  wf_copy_range wf_delete_range wf_validate_excel_range

lemma tool_names_eq: "tool_names = [''apply_formula'', ''validate_formula_syntax'', ''format_range'',
  ''read_data_from_excel'', ''write_data_to_excel'', ''create_workbook'', ''create_worksheet'',
  ''create_chart'', ''create_pivot_table'', ''copy_worksheet'', ''delete_worksheet'', ''rename_worksheet'',
  ''get_workbook_metadata'', ''merge_cells'', ''unmerge_cells'', ''copy_range'', ''delete_range'',
  ''validate_excel_range'']"
  by (simp add: tool_names_def list_tools_def)

lemma wf_dispatch:
  "name \<in> set tool_names \<Longrightarrow> well_formed (fst (dispatch be lib root name arguments s))"
  unfolding tool_names_eq dispatch_def
  by (auto simp: wf_tools)

lemma shape_dispatch:
  "case fst (dispatch be lib root name arguments s) of Inl e \<Rightarrow> True | Inr r \<Rightarrow> (\<exists>k t. r = text_reply k t)"
proof (cases "name \<in> set tool_names")
  case True
  from wf_dispatch [OF this, of be lib root arguments s]
  show ?thesis by (auto simp: well_formed_def split: sum.splits)
next
  case False
  then have "fst (dispatch be lib root name arguments s)
      = Inr (text_reply UnknownTool (''Unknown tool: '' @ name))"
    by (simp add: tool_names_eq dispatch_def)
  then show ?thesis by auto
qed

section \<open>The log line, unknown names and the catalog: claims C3, C4 and C10\<close>

lemma call_tool_log_raises:
  "repr_arguments lib arguments = Inl e \<Longrightarrow>
   call_tool be lib root name arguments s = (Inl e, s)"
  by (simp add: call_tool_def log_call_def)

lemma call_tool_logged:
  "repr_arguments lib arguments = Inr a \<Longrightarrow>
   call_tool be lib root name arguments s =
     (case dispatch be lib root name arguments s of
        (Inl e, s') \<Rightarrow> (Inr (text_reply Unexpected (''Error executing tool: '' @ str e)), s')
      | (Inr r, s') \<Rightarrow> (Inr r, s'))"
  by (simp add: call_tool_def log_call_def)

lemma repr_arguments_digit_limit:
  "repr_arguments digit_limit_lib a =
     (if True \<in> exceeds_digits ` ran a
      then Inl (Exn OtherException digit_limit_message)
      else Inr ''<dict>'')"
  by (simp add: digit_limit_lib_def)

lemma huge_beyond_limit: "10 ^ int_max_str_digits \<le> \<bar>huge\<bar>"
proof -
  have "(10::int) ^ 4300 \<le> 10 ^ 5000"
    by (rule power_increasing) simp_all
  moreover have "(0::int) \<le> 10 ^ 5000"
    by (rule zero_le_power) simp
  ultimately have "(10::int) ^ 4300 \<le> \<bar>10 ^ 5000\<bar>"
    by (simp only: abs_of_nonneg)
  then show ?thesis
    by (simp only: int_max_str_digits_def huge_def)
qed

text \<open>
  Where the log line formats the bag, a name that is not one of the catalog's tool names
  gets the single text \<open>Unknown tool: \<close> followed by the name, and the state (world
  and log of backend calls) is left as it was.
\<close>

lemma unknown_name_logged:
  "name \<notin> set tool_names \<Longrightarrow> repr_arguments lib arguments = Inr a \<Longrightarrow>
   call_tool be lib root name arguments s
     = (Inr (text_reply UnknownTool (''Unknown tool: '' @ name)), s)"
  by (simp add: call_tool_logged tool_names_eq dispatch_def)

text \<open>
  Claim C3 says that a call under a name outside the catalog returns the
  \<open>Unknown tool\<close> text and does not raise, with any argument bag. The log line stands
  before the outer \<open>try\<close>: with a bag that holds an integer of 5001 digits, formatting
  the bag raises, and the exception leaves \<open>call_tool\<close> before the name is looked at.
\<close>

theorem unknown_tool_log_line_raises:
  "call_tool ok_backend digit_limit_lib default_EXCEL_FILES_PATH ''frobnicate''
     [''x'' \<mapsto> PInt huge] ((), [])
   = (Inl (Exn OtherException digit_limit_message), ((), []))"
  by (simp add: call_tool_def log_call_def repr_arguments_digit_limit huge_beyond_limit)

text \<open>
  Claim C4: the catalog advertises 18 tools with pairwise different names, and a call
  under any of these names, with whatever arguments, never returns from the final
  \<open>else\<close> of the chain (the \<open>Unknown tool\<close> return).
\<close>

theorem catalog_names_dispatched:
  "length list_tools = 18 \<and> distinct tool_names \<and>
   (\<forall>name \<in> set tool_names. \<forall>items.
      fst (call_tool be lib root name arguments s) \<noteq> Inr (UnknownTool, items))"
proof (intro conjI ballI allI)
  show "length list_tools = 18" by (simp add: list_tools_def)
  show "distinct tool_names" by (simp add: tool_names_eq)
next
  fix name items assume "name \<in> set tool_names"
  from wf_dispatch [OF this, of be lib root arguments s]
  show "fst (call_tool be lib root name arguments s) \<noteq> Inr (UnknownTool, items)"
    by (auto simp: call_tool_def well_formed_def text_reply_def
             split: prod.splits sum.splits)
qed

theorem catalog_names_dispatched_witness:
  "''create_workbook'' \<in> set tool_names \<and>
   (\<forall>items.
      fst (call_tool ok_backend example_lib default_EXCEL_FILES_PATH ''create_workbook''
             [''filepath'' \<mapsto> PStr ''a.xlsx''] ((), [])) \<noteq> Inr (UnknownTool, items))"
proof -
  have n: "''create_workbook'' \<in> set tool_names" by (simp add: tool_names_eq)
  from catalog_names_dispatched
         [of ok_backend example_lib default_EXCEL_FILES_PATH
             "[''filepath'' \<mapsto> PStr ''a.xlsx'']" "((), [])"] n
  show ?thesis by blast
qed

text \<open>
  Where the log line formats the bag, \<open>call_tool\<close> returns a list of exactly one item,
  of type \<open>text\<close>, for every tool name, bag, backend and state; where it does not, the
  exception of the log line leaves \<open>call_tool\<close> and the state is untouched.
\<close>

lemma call_tool_outcomes:
  "(\<exists>e. repr_arguments lib arguments = Inl e \<and>
        call_tool be lib root name arguments s = (Inl e, s)) \<or>
   (\<exists>k t. fst (call_tool be lib root name arguments s)
            = Inr (k, [\<lparr>type' = ''text'', text' = t\<rparr>]))"
proof (cases "repr_arguments lib arguments")
  case (Inl e)
  then show ?thesis by (simp add: call_tool_log_raises)
next
  case (Inr a)
  with shape_dispatch [of be lib root name arguments s] show ?thesis
    by (auto simp: call_tool_logged text_reply_def split: prod.splits sum.splits)
qed

text \<open>
  Claim C10 says that \<open>call_tool\<close> returns exactly one text item for every tool name
  and every argument bag, and never lets an exception out. The same log line breaks it:
  a \<open>create_workbook\<close> call whose bag also holds an integer of 5001 digits raises
  before the outer \<open>try\<close> is entered, and returns no list.
\<close>

theorem call_tool_log_line_escapes:
  "call_tool ok_backend digit_limit_lib default_EXCEL_FILES_PATH ''create_workbook''
     [''filepath'' \<mapsto> PStr ''a.xlsx'', ''x'' \<mapsto> PInt huge] ((), [])
   = (Inl (Exn OtherException digit_limit_message), ((), []))"
  by (simp add: call_tool_def log_call_def repr_arguments_digit_limit huge_beyond_limit)

section \<open>Exceptions of the backend: claim C2\<close>

lemma raised_in_Nil [simp]: "\<not> raised_in [] e"
  by (simp add: raised_in_def)

lemma raised_in_single [simp]: "raised_in [(c, r)] e = (r = Inl e)"
  by (auto simp: raised_in_def)

lemma invoke_fresh:
  "invoke be c (w, []) = (fst (be c w), (snd (be c w), [(c, fst (be c w))]))"
  by (simp add: invoke_def split: prod.split)

lemma simple_branch_log:
  assumes "try_except classes (call_for_message be lib c (w, [])) = (x, (w', lg))"
      and "raised_in lg e"
  shows "x = handled_as classes e"
  using assms
  by (auto simp: try_except_def call_for_message_def invoke_fresh handled_as_def
           split: sum.splits prod.splits if_splits)

lemma log_validate_formula_syntax:
  "tool_validate_formula_syntax be lib root arguments (w, []) = (x, (w', lg)) \<Longrightarrow> raised_in lg e
   \<Longrightarrow> x = handled_as [ValidationError, CalculationError] e"
  by (auto simp: tool_validate_formula_syntax_def Let_def split: sum.splits if_splits
           dest: simple_branch_log)

lemma log_apply_formula:
  "tool_apply_formula be lib root arguments (w, []) = (x, (w', lg)) \<Longrightarrow> raised_in lg e
   \<Longrightarrow> x = handled_as [ValidationError, CalculationError] e"
  apply (simp add: tool_apply_formula_def Let_def split: sum.splits if_splits)
  apply (auto simp: try_except_def call_for_message_def invoke_def handled_as_def raised_in_def
           split: sum.splits prod.splits if_splits)
  done

lemma log_format_range:
  "tool_format_range be lib root arguments (w, []) = (x, (w', lg)) \<Longrightarrow> raised_in lg e
   \<Longrightarrow> x = handled_as [ValidationError, FormattingError] e"
  by (auto simp: tool_format_range_def Let_def try_except_def invoke_fresh handled_as_def
           split: sum.splits if_splits prod.splits)

lemma log_read_data_from_excel:
  "tool_read_data_from_excel be lib root arguments (w, []) = (x, (w', lg)) \<Longrightarrow> raised_in lg e
   \<Longrightarrow> x = Inr (text_reply ReadFailure (''Error reading data: '' @ str e))"
  by (auto simp: tool_read_data_from_excel_def Let_def try_except_Exception_def invoke_fresh
           split: sum.splits if_splits prod.splits)

lemma log_write_data_to_excel:
  "tool_write_data_to_excel be lib root arguments (w, []) = (x, (w', lg)) \<Longrightarrow> raised_in lg e
   \<Longrightarrow> x = handled_as [ValidationError, DataError] e"
  by (auto simp: tool_write_data_to_excel_def Let_def split: sum.splits if_splits
           dest: simple_branch_log)

lemma log_create_workbook:
  "tool_create_workbook be lib root arguments (w, []) = (x, (w', lg)) \<Longrightarrow> raised_in lg e
   \<Longrightarrow> x = handled_as [WorkbookError] e"
  by (auto simp: tool_create_workbook_def Let_def try_except_def invoke_fresh handled_as_def
           split: sum.splits if_splits prod.splits)

lemma log_create_worksheet:
  "tool_create_worksheet be lib root arguments (w, []) = (x, (w', lg)) \<Longrightarrow> raised_in lg e
   \<Longrightarrow> x = handled_as [ValidationError, WorkbookError] e"
  by (auto simp: tool_create_worksheet_def Let_def split: sum.splits if_splits
           dest: simple_branch_log)

lemma log_create_chart:
  "tool_create_chart be lib root arguments (w, []) = (x, (w', lg)) \<Longrightarrow> raised_in lg e
   \<Longrightarrow> x = handled_as [ValidationError, ChartError] e"
  by (auto simp: tool_create_chart_def Let_def split: sum.splits if_splits
           dest: simple_branch_log)

lemma log_create_pivot_table:
  "tool_create_pivot_table be lib root arguments (w, []) = (x, (w', lg)) \<Longrightarrow> raised_in lg e
   \<Longrightarrow> x = handled_as [ValidationError, PivotError] e"
  by (auto simp: tool_create_pivot_table_def Let_def split: sum.splits if_splits
           dest: simple_branch_log)

lemma log_copy_worksheet:
  "tool_copy_worksheet be lib root arguments (w, []) = (x, (w', lg)) \<Longrightarrow> raised_in lg e
   \<Longrightarrow> x = handled_as [ValidationError, SheetError] e"
  by (auto simp: tool_copy_worksheet_def Let_def split: sum.splits if_splits
           dest: simple_branch_log)

lemma log_delete_worksheet:
  "tool_delete_worksheet be lib root arguments (w, []) = (x, (w', lg)) \<Longrightarrow> raised_in lg e
   \<Longrightarrow> x = handled_as [ValidationError, SheetError] e"
  by (auto simp: tool_delete_worksheet_def Let_def split: sum.splits if_splits
           dest: simple_branch_log)

lemma log_rename_worksheet:
  "tool_rename_worksheet be lib root arguments (w, []) = (x, (w', lg)) \<Longrightarrow> raised_in lg e
   \<Longrightarrow> x = handled_as [ValidationError, SheetError] e"
  by (auto simp: tool_rename_worksheet_def Let_def split: sum.splits if_splits
           dest: simple_branch_log)

lemma log_get_workbook_metadata:
  "tool_get_workbook_metadata be lib root arguments (w, []) = (x, (w', lg)) \<Longrightarrow> raised_in lg e
   \<Longrightarrow> x = handled_as [WorkbookError] e"
  by (auto simp: tool_get_workbook_metadata_def Let_def try_except_def invoke_fresh handled_as_def
           split: sum.splits if_splits prod.splits)

lemma log_merge_cells:
  "tool_merge_cells be lib root arguments (w, []) = (x, (w', lg)) \<Longrightarrow> raised_in lg e
   \<Longrightarrow> x = handled_as [ValidationError, SheetError] e"
  by (auto simp: tool_merge_cells_def Let_def split: sum.splits if_splits
           dest: simple_branch_log)

lemma log_unmerge_cells:
  "tool_unmerge_cells be lib root arguments (w, []) = (x, (w', lg)) \<Longrightarrow> raised_in lg e
   \<Longrightarrow> x = handled_as [ValidationError, SheetError] e"
  by (auto simp: tool_unmerge_cells_def Let_def split: sum.splits if_splits
           dest: simple_branch_log)

lemma log_copy_range:
  "tool_copy_range be lib root arguments (w, []) = (x, (w', lg)) \<Longrightarrow> raised_in lg e
   \<Longrightarrow> x = handled_as [ValidationError, SheetError] e"
  by (auto simp: tool_copy_range_def Let_def split: sum.splits if_splits
           dest: simple_branch_log)

lemma log_delete_range:
  "tool_delete_range be lib root arguments (w, []) = (x, (w', lg)) \<Longrightarrow> raised_in lg e
   \<Longrightarrow> x = handled_as [ValidationError, SheetError] e"
  by (auto simp: tool_delete_range_def Let_def split: sum.splits if_splits
           dest: simple_branch_log)

lemma log_validate_excel_range:
  "tool_validate_excel_range be lib root arguments (w, []) = (x, (w', lg)) \<Longrightarrow> raised_in lg e
   \<Longrightarrow> x = handled_as [ValidationError] e"
  by (auto simp: tool_validate_excel_range_def Let_def split: sum.splits if_splits
           dest: simple_branch_log)

lemma dispatch_simps:
  "dispatch be lib root ''apply_formula'' arguments s = tool_apply_formula be lib root arguments s"
  "dispatch be lib root ''validate_formula_syntax'' arguments s = tool_validate_formula_syntax be lib root arguments s"
  "dispatch be lib root ''format_range'' arguments s = tool_format_range be lib root arguments s"
  "dispatch be lib root ''read_data_from_excel'' arguments s = tool_read_data_from_excel be lib root arguments s"
  "dispatch be lib root ''write_data_to_excel'' arguments s = tool_write_data_to_excel be lib root arguments s"
  "dispatch be lib root ''create_workbook'' arguments s = tool_create_workbook be lib root arguments s"
  "dispatch be lib root ''create_worksheet'' arguments s = tool_create_worksheet be lib root arguments s"
  "dispatch be lib root ''create_chart'' arguments s = tool_create_chart be lib root arguments s"
  "dispatch be lib root ''create_pivot_table'' arguments s = tool_create_pivot_table be lib root arguments s"
  "dispatch be lib root ''copy_worksheet'' arguments s = tool_copy_worksheet be lib root arguments s"
  "dispatch be lib root ''delete_worksheet'' arguments s = tool_delete_worksheet be lib root arguments s"
  "dispatch be lib root ''rename_worksheet'' arguments s = tool_rename_worksheet be lib root arguments s"
  "dispatch be lib root ''get_workbook_metadata'' arguments s = tool_get_workbook_metadata be lib root arguments s"
  "dispatch be lib root ''merge_cells'' arguments s = tool_merge_cells be lib root arguments s"
  "dispatch be lib root ''unmerge_cells'' arguments s = tool_unmerge_cells be lib root arguments s"
  "dispatch be lib root ''copy_range'' arguments s = tool_copy_range be lib root arguments s"
  "dispatch be lib root ''delete_range'' arguments s = tool_delete_range be lib root arguments s"
  "dispatch be lib root ''validate_excel_range'' arguments s = tool_validate_excel_range be lib root arguments s"
  by (simp_all add: dispatch_def)

lemma caught_at_simps:
  "caught_at ''apply_formula'' = [ValidationError, CalculationError]"
  "caught_at ''validate_formula_syntax'' = [ValidationError, CalculationError]"
  "caught_at ''format_range'' = [ValidationError, FormattingError]"
  "caught_at ''write_data_to_excel'' = [ValidationError, DataError]"
  "caught_at ''create_workbook'' = [WorkbookError]"
  "caught_at ''create_worksheet'' = [ValidationError, WorkbookError]"
  "caught_at ''create_chart'' = [ValidationError, ChartError]"
  "caught_at ''create_pivot_table'' = [ValidationError, PivotError]"
  "caught_at ''copy_worksheet'' = [ValidationError, SheetError]"
  "caught_at ''delete_worksheet'' = [ValidationError, SheetError]"
  "caught_at ''rename_worksheet'' = [ValidationError, SheetError]"
  "caught_at ''get_workbook_metadata'' = [WorkbookError]"
  "caught_at ''merge_cells'' = [ValidationError, SheetError]"
  "caught_at ''unmerge_cells'' = [ValidationError, SheetError]"
  "caught_at ''copy_range'' = [ValidationError, SheetError]"
  "caught_at ''delete_range'' = [ValidationError, SheetError]"
  "caught_at ''validate_excel_range'' = [ValidationError]"
  by (simp_all add: caught_at_def)

lemma dispatch_raised:
  assumes "name \<in> set tool_names"
      and "dispatch be lib root name arguments (w, []) = (x, (w', lg))"
      and "raised_in lg e"
  shows "x = (if name = ''read_data_from_excel''
              then Inr (text_reply ReadFailure (''Error reading data: '' @ str e))
              else handled_as (caught_at name) e)"
  using assms unfolding tool_names_eq
  apply (simp only: list.set insert_iff empty_iff simp_thms)
  apply (elim disjE)
  subgoal
    using log_apply_formula [of be lib root arguments w x w' lg e]
    by (simp add: dispatch_simps caught_at_simps)
  subgoal
    using log_validate_formula_syntax [of be lib root arguments w x w' lg e]
    by (simp add: dispatch_simps caught_at_simps)
  subgoal
    using log_format_range [of be lib root arguments w x w' lg e]
    by (simp add: dispatch_simps caught_at_simps)
  subgoal
    using log_read_data_from_excel [of be lib root arguments w x w' lg e]
    by (simp add: dispatch_simps caught_at_simps)
  subgoal
    using log_write_data_to_excel [of be lib root arguments w x w' lg e]
    by (simp add: dispatch_simps caught_at_simps)
  subgoal
    using log_create_workbook [of be lib root arguments w x w' lg e]
    by (simp add: dispatch_simps caught_at_simps)
  subgoal
    using log_create_worksheet [of be lib root arguments w x w' lg e]
    by (simp add: dispatch_simps caught_at_simps)
  subgoal
    using log_create_chart [of be lib root arguments w x w' lg e]
    by (simp add: dispatch_simps caught_at_simps)
  subgoal
    using log_create_pivot_table [of be lib root arguments w x w' lg e]
    by (simp add: dispatch_simps caught_at_simps)
  subgoal
    using log_copy_worksheet [of be lib root arguments w x w' lg e]
    by (simp add: dispatch_simps caught_at_simps)
  subgoal
    using log_delete_worksheet [of be lib root arguments w x w' lg e]
    by (simp add: dispatch_simps caught_at_simps)
  subgoal
    using log_rename_worksheet [of be lib root arguments w x w' lg e]
    by (simp add: dispatch_simps caught_at_simps)
  subgoal
    using log_get_workbook_metadata [of be lib root arguments w x w' lg e]
    by (simp add: dispatch_simps caught_at_simps)
  subgoal
    using log_merge_cells [of be lib root arguments w x w' lg e]
    by (simp add: dispatch_simps caught_at_simps)
  subgoal
    using log_unmerge_cells [of be lib root arguments w x w' lg e]
    by (simp add: dispatch_simps caught_at_simps)
  subgoal
    using log_copy_range [of be lib root arguments w x w' lg e]
    by (simp add: dispatch_simps caught_at_simps)
  subgoal
    using log_delete_range [of be lib root arguments w x w' lg e]
    by (simp add: dispatch_simps caught_at_simps)
  subgoal
    using log_validate_excel_range [of be lib root arguments w x w' lg e]
    by (simp add: dispatch_simps caught_at_simps)
  done

text \<open>
  Claim C2, as stated: in every branch an exception outside the classes of the call site
  reaches the outer boundary and is rendered with the prefix \<open>Error executing tool: \<close>.
  The branch of \<open>read_data_from_excel\<close> catches \<open>Exception\<close> itself and renders
  with its own prefix.
\<close>

theorem read_data_exception_prefix_counterexample:
  "fst (call_tool (raising_backend (Exn OtherException ''boom'')) example_lib
          default_EXCEL_FILES_PATH ''read_data_from_excel''
          [''filepath'' \<mapsto> PStr ''a.xlsx'', ''sheet_name'' \<mapsto> PStr ''Sheet1''] ((), []))
     = Inr (text_reply ReadFailure ''Error reading data: boom'') \<and>
   text_reply ReadFailure ''Error reading data: boom''
     \<noteq> text_reply Unexpected (''Error executing tool: '' @ str (Exn OtherException ''boom''))"
  by (simp add: call_tool_def log_call_def example_lib_def dispatch_def
        tool_read_data_from_excel_def get_excel_path_def
        dict_get_def dict_get_none_def py_all_def isabs_def path_join_def endswith_sep_def
        default_EXCEL_FILES_PATH_def try_except_Exception_def invoke_def raising_backend_def
        text_reply_def)

text \<open>
  Claim C2, amended: for every tool other than \<open>read_data_from_excel\<close>, an exception
  raised by a backend call is rendered as \<open>Error: \<close> and its message when its class is
  one of those named at that tool's call site, and otherwise reaches the outer boundary
  and is rendered as \<open>Error executing tool: \<close> and its message; for
  \<open>read_data_from_excel\<close>, every exception raised by the backend call is caught at
  the call site and rendered as \<open>Error reading data: \<close> and its message.
\<close>

theorem call_site_exception_rendering:
  assumes "name \<in> set tool_names"
      and "call_tool be lib root name arguments (w, []) = (r, (w', lg))"
      and "raised_in lg e"
  shows "(name \<noteq> ''read_data_from_excel'' \<longrightarrow>
            r = Inr (if cls e \<in> set (caught_at name)
                     then text_reply DomainFailure (''Error: '' @ str e)
                     else text_reply Unexpected (''Error executing tool: '' @ str e))) \<and>
         (name = ''read_data_from_excel'' \<longrightarrow>
            r = Inr (text_reply ReadFailure (''Error reading data: '' @ str e)))"
proof -
  obtain a where a: "repr_arguments lib arguments = Inr a"
  proof (cases "repr_arguments lib arguments")
    case (Inl e')
    from call_tool_log_raises [OF this, of be root name "(w, [])"] assms(2)
    have "lg = []" by simp
    with assms(3) show ?thesis by simp
  next
    case (Inr a)
    then show ?thesis by (rule that)
  qed
  note run = assms(2) [unfolded call_tool_logged [OF a]]
  obtain x where d: "dispatch be lib root name arguments (w, []) = (x, (w', lg))"
    using run by (auto split: prod.splits sum.splits)
  from dispatch_raised [OF assms(1) d assms(3)] run d
  show ?thesis
    by (auto simp: handled_as_def split: if_splits)
qed

theorem call_site_exception_rendering_witness:
  "''create_chart'' \<in> set tool_names \<and>
   call_tool (raising_backend (Exn OtherException ''boom'')) example_lib
          default_EXCEL_FILES_PATH ''create_chart''
          [''filepath'' \<mapsto> PStr ''a.xlsx'', ''sheet_name'' \<mapsto> PStr ''Sheet1'',
           ''data_range'' \<mapsto> PStr ''A1:B2'', ''chart_type'' \<mapsto> PStr ''bar'',
           ''target_cell'' \<mapsto> PStr ''D1''] ((), [])
     = (Inr (text_reply Unexpected ''Error executing tool: boom''),
        ((), [(Call ''create_chart_impl'' []
                 [(''filepath'', PStr ''./excel_files/a.xlsx''), (''sheet_name'', PStr ''Sheet1''),
                  (''data_range'', PStr ''A1:B2''), (''chart_type'', PStr ''bar''),
                  (''target_cell'', PStr ''D1''), (''title'', PStr ''''), (''x_axis'', PStr ''''),
                  (''y_axis'', PStr '''')],
               Inl (Exn OtherException ''boom''))])) \<and>
   raised_in [(Call ''create_chart_impl'' []
                 [(''filepath'', PStr ''./excel_files/a.xlsx''), (''sheet_name'', PStr ''Sheet1''),
                  (''data_range'', PStr ''A1:B2''), (''chart_type'', PStr ''bar''),
                  (''target_cell'', PStr ''D1''), (''title'', PStr ''''), (''x_axis'', PStr ''''),
                  (''y_axis'', PStr '''')],
               Inl (Exn OtherException ''boom''))] (Exn OtherException ''boom'') \<and>
   OtherException \<notin> set (caught_at ''create_chart'')"
proof -
  let ?lg = "[(Call ''create_chart_impl'' []
                 [(''filepath'', PStr ''./excel_files/a.xlsx''), (''sheet_name'', PStr ''Sheet1''),
                  (''data_range'', PStr ''A1:B2''), (''chart_type'', PStr ''bar''),
                  (''target_cell'', PStr ''D1''), (''title'', PStr ''''), (''x_axis'', PStr ''''),
                  (''y_axis'', PStr '''')],
               Inl (Exn OtherException ''boom''))]"
  let ?args = "[''filepath'' \<mapsto> PStr ''a.xlsx'', ''sheet_name'' \<mapsto> PStr ''Sheet1'',
           ''data_range'' \<mapsto> PStr ''A1:B2'', ''chart_type'' \<mapsto> PStr ''bar'',
           ''target_cell'' \<mapsto> PStr ''D1'']"
  have n: "''create_chart'' \<in> set tool_names" by (simp add: tool_names_def list_tools_def)
  have run: "call_tool (raising_backend (Exn OtherException ''boom'')) example_lib
          default_EXCEL_FILES_PATH ''create_chart'' ?args ((), [])
     = (Inr (text_reply Unexpected ''Error executing tool: boom''), ((), ?lg))"
    by (simp add: call_tool_def log_call_def example_lib_def dispatch_def
        tool_create_chart_def get_excel_path_def
        dict_get_def dict_get_none_def py_all_def isabs_def path_join_def endswith_sep_def
        default_EXCEL_FILES_PATH_def try_except_def call_for_message_def invoke_def
        raising_backend_def text_reply_def)
  have r: "raised_in ?lg (Exn OtherException ''boom'')" by (simp add: raised_in_def)
  have nc: "OtherException \<notin> set (caught_at ''create_chart'')" by (simp add: caught_at_def)
  from call_site_exception_rendering [OF n run r] nc run n r show ?thesis by blast
qed

section \<open>Arguments passed to the backend: claims C6, C7 and C8\<close>

lemma invoke_log:
  "invoke be c (w, lg) = (fst (be c w), (snd (be c w), lg @ [(c, fst (be c w))]))"
  by (simp add: invoke_def split: prod.split)

lemma log_try_except [simp]: "snd (try_except classes r) = snd r"
  by (cases r) (auto simp: try_except_def split: sum.split)

lemma log_try_except_Exception [simp]: "snd (try_except_Exception r) = snd r"
  by (cases r) (auto simp: try_except_Exception_def split: sum.split)

lemma log_call_for_message [simp]:
  "snd (call_for_message be lib c (w, lg)) = (snd (be c w), lg @ [(c, fst (be c w))])"
  by (simp add: call_for_message_def invoke_log split: sum.split)

lemma snd_call_tool:
  "repr_arguments lib arguments = Inr a \<Longrightarrow>
   snd (call_tool be lib root name arguments s) = snd (dispatch be lib root name arguments s)"
  by (simp add: call_tool_logged split: prod.split sum.split)

lemmas eval_defs = get_excel_path_def dict_get_def dict_get_none_def isabs_def path_join_def
  endswith_sep_def default_EXCEL_FILES_PATH_def

text \<open>
  Claim C6: in a \<open>validate_excel_range\<close> call that gets as far as the backend (the
  log line formats the bag, the path resolves to a non-empty string and \<open>sheet_name\<close>
  is non-empty), with a
  non-empty string \<open>start_cell\<close>: when \<open>end_cell\<close> is supplied as a non-empty
  string, the one backend call is \<open>validate_range_impl\<close> with the range
  \<open>start_cell\<close>, a colon, \<open>end_cell\<close>; when \<open>end_cell\<close> is not supplied, the
  range is \<open>start_cell\<close> alone.
\<close>

theorem validate_excel_range_token:
  assumes "get_excel_path lib root (dict_get arguments ''filepath'' (PStr '''')) = Inr filepath"
      and "filepath \<noteq> []"
      and "truthy (dict_get arguments ''sheet_name'' (PStr ''''))"
      and "arguments ''start_cell'' = Some (PStr start_cell)" and "start_cell \<noteq> []"
      and "repr_arguments lib arguments = Inr logged"
  shows "(arguments ''end_cell'' = Some (PStr end_cell) \<and> end_cell \<noteq> [] \<longrightarrow>
            calls_made (call_tool be lib root ''validate_excel_range'' arguments (w, []))
              = [Call ''validate_range_impl''
                   [PStr filepath, dict_get arguments ''sheet_name'' (PStr ''''),
                    PStr (start_cell @ '':'' @ end_cell)] []]) \<and>
         (arguments ''end_cell'' = None \<longrightarrow>
            calls_made (call_tool be lib root ''validate_excel_range'' arguments (w, []))
              = [Call ''validate_range_impl''
                   [PStr filepath, dict_get arguments ''sheet_name'' (PStr ''''),
                    PStr start_cell] []])"
  using assms
  by (simp add: calls_made_def snd_call_tool dispatch_def tool_validate_excel_range_def Let_def
        py_all_def dict_get_def dict_get_none_def py_str_def)

theorem validate_excel_range_token_witness:
  "calls_made (call_tool ok_backend example_lib default_EXCEL_FILES_PATH ''validate_excel_range''
     [''filepath'' \<mapsto> PStr ''a.xlsx'', ''sheet_name'' \<mapsto> PStr ''Sheet1'',
      ''start_cell'' \<mapsto> PStr ''A1'', ''end_cell'' \<mapsto> PStr ''B2''] ((), []))
     = [Call ''validate_range_impl''
          [PStr ''./excel_files/a.xlsx'', PStr ''Sheet1'', PStr ''A1:B2''] []] \<and>
   calls_made (call_tool ok_backend example_lib default_EXCEL_FILES_PATH ''validate_excel_range''
     [''filepath'' \<mapsto> PStr ''a.xlsx'', ''sheet_name'' \<mapsto> PStr ''Sheet1'',
      ''start_cell'' \<mapsto> PStr ''A1''] ((), []))
     = [Call ''validate_range_impl''
          [PStr ''./excel_files/a.xlsx'', PStr ''Sheet1'', PStr ''A1''] []]"
proof -
  let ?both = "[''filepath'' \<mapsto> PStr ''a.xlsx'', ''sheet_name'' \<mapsto> PStr ''Sheet1'',
      ''start_cell'' \<mapsto> PStr ''A1'', ''end_cell'' \<mapsto> PStr ''B2'']"
  let ?only = "[''filepath'' \<mapsto> PStr ''a.xlsx'', ''sheet_name'' \<mapsto> PStr ''Sheet1'',
      ''start_cell'' \<mapsto> PStr ''A1'']"
  have p1: "get_excel_path example_lib default_EXCEL_FILES_PATH
              (dict_get ?both ''filepath'' (PStr '''')) = Inr ''./excel_files/a.xlsx''"
    by (simp add: eval_defs)
  have p2: "get_excel_path example_lib default_EXCEL_FILES_PATH
              (dict_get ?only ''filepath'' (PStr '''')) = Inr ''./excel_files/a.xlsx''"
    by (simp add: eval_defs)
  have ne: "''./excel_files/a.xlsx'' \<noteq> []" by simp
  have fmt1: "repr_arguments example_lib ?both = Inr ''<dict>''" by (simp add: example_lib_def)
  have fmt2: "repr_arguments example_lib ?only = Inr ''<dict>''" by (simp add: example_lib_def)
  have s1: "truthy (dict_get ?both ''sheet_name'' (PStr ''''))" by (simp add: dict_get_def)
  have s2: "truthy (dict_get ?only ''sheet_name'' (PStr ''''))" by (simp add: dict_get_def)
  have c1: "?both ''start_cell'' = Some (PStr ''A1'')" by simp
  have c2: "?only ''start_cell'' = Some (PStr ''A1'')" by simp
  have a1: "''A1'' \<noteq> []" by simp
  have e1: "?both ''end_cell'' = Some (PStr ''B2'') \<and> ''B2'' \<noteq> []" by simp
  have e2: "?only ''end_cell'' = None" by simp
  have v1: "dict_get ?both ''sheet_name'' (PStr '''') = PStr ''Sheet1''"
    by (simp add: dict_get_def)
  have v2: "dict_get ?only ''sheet_name'' (PStr '''') = PStr ''Sheet1''"
    by (simp add: dict_get_def)
  have cat: "''A1'' @ '':'' @ ''B2'' = ''A1:B2''" by simp
  from validate_excel_range_token [OF p1 ne s1 c1 a1 fmt1, of "''B2''" ok_backend "()"] e1
  have r1: "calls_made (call_tool ok_backend example_lib default_EXCEL_FILES_PATH
              ''validate_excel_range'' ?both ((), []))
            = [Call ''validate_range_impl''
                 [PStr ''./excel_files/a.xlsx'', dict_get ?both ''sheet_name'' (PStr ''''),
                  PStr (''A1'' @ '':'' @ ''B2'')] []]"
    by blast
  from validate_excel_range_token [OF p2 ne s2 c2 a1 fmt2, of "''B2''" ok_backend "()"] e2
  have r2: "calls_made (call_tool ok_backend example_lib default_EXCEL_FILES_PATH
              ''validate_excel_range'' ?only ((), []))
            = [Call ''validate_range_impl''
                 [PStr ''./excel_files/a.xlsx'', dict_get ?only ''sheet_name'' (PStr ''''),
                  PStr ''A1''] []]"
    by blast
  from r1 [unfolded v1 cat] r2 [unfolded v2] show ?thesis by (rule conjI)
qed



text \<open>
  Claim C8: an optional argument absent from the bag reaches the backend as its default:
  \<open>write_headers\<close> as \<open>True\<close> (\<open>write_data_to_excel\<close>), \<open>agg_func\<close> as
  \<open>mean\<close> (\<open>create_pivot_table\<close>), \<open>shift_direction\<close> as \<open>up\<close>
  (\<open>delete_range\<close>) and \<open>preview_only\<close> as \<open>False\<close>
  (\<open>read_data_from_excel\<close>), in every call that gets past the log line and the check
  of the required parameters.
\<close>

theorem optional_defaults_passed:
  assumes "get_excel_path lib root (dict_get arguments ''filepath'' (PStr '''')) = Inr filepath"
      and "filepath \<noteq> []"
      and "truthy (dict_get arguments ''sheet_name'' (PStr ''''))"
      and "repr_arguments lib arguments = Inr logged"
  shows "(arguments ''write_headers'' = None \<longrightarrow> truthy (dict_get arguments ''data'' (PList [])) \<longrightarrow>
            calls_made (call_tool be lib root ''write_data_to_excel'' arguments (w, []))
              = [Call ''write_data''
                   [PStr filepath, dict_get arguments ''sheet_name'' (PStr ''''),
                    dict_get arguments ''data'' (PList []),
                    dict_get arguments ''start_cell'' (PStr ''A1''), PBool True] []]) \<and>
         (arguments ''agg_func'' = None \<longrightarrow>
          truthy (dict_get arguments ''data_range'' (PStr '''')) \<longrightarrow>
          truthy (dict_get arguments ''rows'' (PList [])) \<longrightarrow>
          truthy (dict_get arguments ''values'' (PList [])) \<longrightarrow>
            calls_made (call_tool be lib root ''create_pivot_table'' arguments (w, []))
              = [Call ''create_pivot_table_impl'' []
                   [(''filepath'', PStr filepath),
                    (''sheet_name'', dict_get arguments ''sheet_name'' (PStr '''')),
                    (''data_range'', dict_get arguments ''data_range'' (PStr '''')),
                    (''rows'', dict_get arguments ''rows'' (PList [])),
                    (''values'', dict_get arguments ''values'' (PList [])),
                    (''columns'', if truthy (dict_get arguments ''columns'' (PList []))
                                  then dict_get arguments ''columns'' (PList []) else PList []),
                    (''agg_func'', PStr ''mean'')]]) \<and>
         (arguments ''shift_direction'' = None \<longrightarrow>
          truthy (dict_get arguments ''start_cell'' (PStr '''')) \<longrightarrow>
          truthy (dict_get arguments ''end_cell'' (PStr '''')) \<longrightarrow>
            calls_made (call_tool be lib root ''delete_range'' arguments (w, []))
              = [Call ''delete_range_operation''
                   [PStr filepath, dict_get arguments ''sheet_name'' (PStr ''''),
                    dict_get arguments ''start_cell'' (PStr ''''),
                    dict_get arguments ''end_cell'' (PStr ''''), PStr ''up''] []]) \<and>
         (arguments ''preview_only'' = None \<longrightarrow>
            calls_made (call_tool be lib root ''read_data_from_excel'' arguments (w, []))
              = [Call ''read_excel_range''
                   [PStr filepath, dict_get arguments ''sheet_name'' (PStr ''''),
                    dict_get arguments ''start_cell'' (PStr ''A1''),
                    dict_get_none arguments ''end_cell'', PBool False] []])"
proof (intro conjI impI)
  assume "arguments ''write_headers'' = None" "truthy (dict_get arguments ''data'' (PList []))"
  with assms show "calls_made (call_tool be lib root ''write_data_to_excel'' arguments (w, []))
              = [Call ''write_data''
                   [PStr filepath, dict_get arguments ''sheet_name'' (PStr ''''),
                    dict_get arguments ''data'' (PList []),
                    dict_get arguments ''start_cell'' (PStr ''A1''), PBool True] []]"
    by (simp add: calls_made_def snd_call_tool dispatch_def tool_write_data_to_excel_def Let_def
        py_all_def) (simp add: dict_get_def)
next
  assume "arguments ''agg_func'' = None" "truthy (dict_get arguments ''data_range'' (PStr ''''))"
    "truthy (dict_get arguments ''rows'' (PList []))" "truthy (dict_get arguments ''values'' (PList []))"
  with assms show "calls_made (call_tool be lib root ''create_pivot_table'' arguments (w, []))
              = [Call ''create_pivot_table_impl'' []
                   [(''filepath'', PStr filepath),
                    (''sheet_name'', dict_get arguments ''sheet_name'' (PStr '''')),
                    (''data_range'', dict_get arguments ''data_range'' (PStr '''')),
                    (''rows'', dict_get arguments ''rows'' (PList [])),
                    (''values'', dict_get arguments ''values'' (PList [])),
                    (''columns'', if truthy (dict_get arguments ''columns'' (PList []))
                                  then dict_get arguments ''columns'' (PList []) else PList []),
                    (''agg_func'', PStr ''mean'')]]"
    by (simp add: calls_made_def snd_call_tool dispatch_def tool_create_pivot_table_def Let_def
        py_all_def) (simp add: dict_get_def)
next
  assume "arguments ''shift_direction'' = None" "truthy (dict_get arguments ''start_cell'' (PStr ''''))"
    "truthy (dict_get arguments ''end_cell'' (PStr ''''))"
  with assms show "calls_made (call_tool be lib root ''delete_range'' arguments (w, []))
              = [Call ''delete_range_operation''
                   [PStr filepath, dict_get arguments ''sheet_name'' (PStr ''''),
                    dict_get arguments ''start_cell'' (PStr ''''),
                    dict_get arguments ''end_cell'' (PStr ''''), PStr ''up''] []]"
    by (simp add: calls_made_def snd_call_tool dispatch_def tool_delete_range_def Let_def
        py_all_def) (simp add: dict_get_def)
next
  assume "arguments ''preview_only'' = None"
  with assms show "calls_made (call_tool be lib root ''read_data_from_excel'' arguments (w, []))
              = [Call ''read_excel_range''
                   [PStr filepath, dict_get arguments ''sheet_name'' (PStr ''''),
                    dict_get arguments ''start_cell'' (PStr ''A1''),
                    dict_get_none arguments ''end_cell'', PBool False] []]"
    by (simp add: calls_made_def snd_call_tool dispatch_def tool_read_data_from_excel_def Let_def
        py_all_def invoke_log split: prod.split sum.split) (simp add: dict_get_def)
qed

theorem optional_defaults_passed_witness:
  "calls_made (call_tool ok_backend example_lib default_EXCEL_FILES_PATH ''write_data_to_excel''
     [''filepath'' \<mapsto> PStr ''a.xlsx'', ''sheet_name'' \<mapsto> PStr ''Sheet1'',
      ''data'' \<mapsto> PList [PList [PInt 1]], ''data_range'' \<mapsto> PStr ''A1:B2'',
      ''rows'' \<mapsto> PList [PStr ''r''], ''values'' \<mapsto> PList [PStr ''v''],
      ''start_cell'' \<mapsto> PStr ''A1'', ''end_cell'' \<mapsto> PStr ''B2''] ((), []))
     = [Call ''write_data''
          [PStr ''./excel_files/a.xlsx'', PStr ''Sheet1'', PList [PList [PInt 1]], PStr ''A1'',
           PBool True] []] \<and>
   calls_made (call_tool ok_backend example_lib default_EXCEL_FILES_PATH ''create_pivot_table''
     [''filepath'' \<mapsto> PStr ''a.xlsx'', ''sheet_name'' \<mapsto> PStr ''Sheet1'',
      ''data'' \<mapsto> PList [PList [PInt 1]], ''data_range'' \<mapsto> PStr ''A1:B2'',
      ''rows'' \<mapsto> PList [PStr ''r''], ''values'' \<mapsto> PList [PStr ''v''],
      ''start_cell'' \<mapsto> PStr ''A1'', ''end_cell'' \<mapsto> PStr ''B2''] ((), []))
     = [Call ''create_pivot_table_impl'' []
          [(''filepath'', PStr ''./excel_files/a.xlsx''), (''sheet_name'', PStr ''Sheet1''),
           (''data_range'', PStr ''A1:B2''), (''rows'', PList [PStr ''r'']),
           (''values'', PList [PStr ''v'']), (''columns'', PList []),
           (''agg_func'', PStr ''mean'')]] \<and>
   calls_made (call_tool ok_backend example_lib default_EXCEL_FILES_PATH ''delete_range''
     [''filepath'' \<mapsto> PStr ''a.xlsx'', ''sheet_name'' \<mapsto> PStr ''Sheet1'',
      ''data'' \<mapsto> PList [PList [PInt 1]], ''data_range'' \<mapsto> PStr ''A1:B2'',
      ''rows'' \<mapsto> PList [PStr ''r''], ''values'' \<mapsto> PList [PStr ''v''],
      ''start_cell'' \<mapsto> PStr ''A1'', ''end_cell'' \<mapsto> PStr ''B2''] ((), []))
     = [Call ''delete_range_operation''
          [PStr ''./excel_files/a.xlsx'', PStr ''Sheet1'', PStr ''A1'', PStr ''B2'',
           PStr ''up''] []] \<and>
   calls_made (call_tool ok_backend example_lib default_EXCEL_FILES_PATH ''read_data_from_excel''
     [''filepath'' \<mapsto> PStr ''a.xlsx'', ''sheet_name'' \<mapsto> PStr ''Sheet1'',
      ''data'' \<mapsto> PList [PList [PInt 1]], ''data_range'' \<mapsto> PStr ''A1:B2'',
      ''rows'' \<mapsto> PList [PStr ''r''], ''values'' \<mapsto> PList [PStr ''v''],
      ''start_cell'' \<mapsto> PStr ''A1'', ''end_cell'' \<mapsto> PStr ''B2''] ((), []))
     = [Call ''read_excel_range''
          [PStr ''./excel_files/a.xlsx'', PStr ''Sheet1'', PStr ''A1'', PStr ''B2'',
           PBool False] []]"
proof -
  let ?args = "[''filepath'' \<mapsto> PStr ''a.xlsx'', ''sheet_name'' \<mapsto> PStr ''Sheet1'',
      ''data'' \<mapsto> PList [PList [PInt 1]], ''data_range'' \<mapsto> PStr ''A1:B2'',
      ''rows'' \<mapsto> PList [PStr ''r''], ''values'' \<mapsto> PList [PStr ''v''],
      ''start_cell'' \<mapsto> PStr ''A1'', ''end_cell'' \<mapsto> PStr ''B2'']"
  have p: "get_excel_path example_lib default_EXCEL_FILES_PATH
              (dict_get ?args ''filepath'' (PStr '''')) = Inr ''./excel_files/a.xlsx''"
    by (simp add: eval_defs)
  have ne: "''./excel_files/a.xlsx'' \<noteq> []" by simp
  have fmt: "repr_arguments example_lib ?args = Inr ''<dict>''" by (simp add: example_lib_def)
  have sh: "truthy (dict_get ?args ''sheet_name'' (PStr ''''))" by (simp add: dict_get_def)
  have absent: "?args ''write_headers'' = None" "?args ''agg_func'' = None"
    "?args ''shift_direction'' = None" "?args ''preview_only'' = None"
    by simp_all
  have present: "truthy (dict_get ?args ''data'' (PList []))"
    "truthy (dict_get ?args ''data_range'' (PStr ''''))"
    "truthy (dict_get ?args ''rows'' (PList []))"
    "truthy (dict_get ?args ''values'' (PList []))"
    "truthy (dict_get ?args ''start_cell'' (PStr ''''))"
    "truthy (dict_get ?args ''end_cell'' (PStr ''''))"
    by (simp_all add: dict_get_def)
  have v: "dict_get ?args ''sheet_name'' (PStr '''') = PStr ''Sheet1''"
    "dict_get ?args ''data'' (PList []) = PList [PList [PInt 1]]"
    "dict_get ?args ''start_cell'' (PStr ''A1'') = PStr ''A1''"
    "dict_get ?args ''data_range'' (PStr '''') = PStr ''A1:B2''"
    "dict_get ?args ''rows'' (PList []) = PList [PStr ''r'']"
    "dict_get ?args ''values'' (PList []) = PList [PStr ''v'']"
    "(if truthy (dict_get ?args ''columns'' (PList []))
      then dict_get ?args ''columns'' (PList []) else PList []) = PList []"
    "dict_get ?args ''start_cell'' (PStr '''') = PStr ''A1''"
    "dict_get ?args ''end_cell'' (PStr '''') = PStr ''B2''"
    "dict_get_none ?args ''end_cell'' = PStr ''B2''"
    by (simp_all add: dict_get_def dict_get_none_def)
  note r = optional_defaults_passed [OF p ne sh fmt, of ok_backend "()", unfolded v]
  from r absent present [unfolded v] show ?thesis by blast
qed

section \<open>The check of the required parameters: claim C1\<close>

text \<open>
  A required parameter other than \<open>filepath\<close> that is omitted or empty does give the
  reply, with the state untouched, in every tool that has one (once the log line has
  formatted the bag).
\<close>

lemma omitted_or_empty_get:
  "omitted_or_empty arguments key \<Longrightarrow> \<not> truthy dflt \<Longrightarrow> \<not> truthy (dict_get arguments key dflt)"
  by (auto simp: omitted_or_empty_def dict_get_def split: option.splits)

lemmas tool_defs = tool_apply_formula_def tool_validate_formula_syntax_def tool_format_range_def
  tool_read_data_from_excel_def tool_write_data_to_excel_def tool_create_workbook_def
  tool_create_worksheet_def tool_create_chart_def tool_create_pivot_table_def
  tool_copy_worksheet_def tool_delete_worksheet_def tool_rename_worksheet_def
  tool_get_workbook_metadata_def tool_merge_cells_def tool_unmerge_cells_def
  tool_copy_range_def tool_delete_range_def tool_validate_excel_range_def

lemma miss_apply_formula:
  "get_excel_path lib root (dict_get arguments ''filepath'' (PStr '''')) = Inr p \<Longrightarrow>
   key \<in> set [''sheet_name'', ''cell'', ''formula''] \<Longrightarrow> omitted_or_empty arguments key \<Longrightarrow>
   tool_apply_formula be lib root arguments s = (Inr missing_required, s)"
  by (auto simp: tool_apply_formula_def Let_def py_all_def
      dest: omitted_or_empty_get [where dflt = "PStr ''''"]
            omitted_or_empty_get [where dflt = "PList []"])

lemma miss_validate_formula_syntax:
  "get_excel_path lib root (dict_get arguments ''filepath'' (PStr '''')) = Inr p \<Longrightarrow>
   key \<in> set [''sheet_name'', ''cell'', ''formula''] \<Longrightarrow> omitted_or_empty arguments key \<Longrightarrow>
   tool_validate_formula_syntax be lib root arguments s = (Inr missing_required, s)"
  by (auto simp: tool_validate_formula_syntax_def Let_def py_all_def
      dest: omitted_or_empty_get [where dflt = "PStr ''''"]
            omitted_or_empty_get [where dflt = "PList []"])

lemma miss_format_range:
  "get_excel_path lib root (dict_get arguments ''filepath'' (PStr '''')) = Inr p \<Longrightarrow>
   key \<in> set [''sheet_name'', ''start_cell''] \<Longrightarrow> omitted_or_empty arguments key \<Longrightarrow>
   tool_format_range be lib root arguments s = (Inr missing_required, s)"
  by (auto simp: tool_format_range_def Let_def py_all_def
      dest: omitted_or_empty_get [where dflt = "PStr ''''"]
            omitted_or_empty_get [where dflt = "PList []"])

lemma miss_read_data_from_excel:
  "get_excel_path lib root (dict_get arguments ''filepath'' (PStr '''')) = Inr p \<Longrightarrow>
   key \<in> set [''sheet_name''] \<Longrightarrow> omitted_or_empty arguments key \<Longrightarrow>
   tool_read_data_from_excel be lib root arguments s = (Inr missing_required, s)"
  by (auto simp: tool_read_data_from_excel_def Let_def py_all_def
      dest: omitted_or_empty_get [where dflt = "PStr ''''"]
            omitted_or_empty_get [where dflt = "PList []"])

lemma miss_write_data_to_excel:
  "get_excel_path lib root (dict_get arguments ''filepath'' (PStr '''')) = Inr p \<Longrightarrow>
   key \<in> set [''sheet_name'', ''data''] \<Longrightarrow> omitted_or_empty arguments key \<Longrightarrow>
   tool_write_data_to_excel be lib root arguments s = (Inr missing_required, s)"
  by (auto simp: tool_write_data_to_excel_def Let_def py_all_def
      dest: omitted_or_empty_get [where dflt = "PStr ''''"]
            omitted_or_empty_get [where dflt = "PList []"])

lemma miss_create_worksheet:
  "get_excel_path lib root (dict_get arguments ''filepath'' (PStr '''')) = Inr p \<Longrightarrow>
   key \<in> set [''sheet_name''] \<Longrightarrow> omitted_or_empty arguments key \<Longrightarrow>
   tool_create_worksheet be lib root arguments s = (Inr missing_required, s)"
  by (auto simp: tool_create_worksheet_def Let_def py_all_def
      dest: omitted_or_empty_get [where dflt = "PStr ''''"]
            omitted_or_empty_get [where dflt = "PList []"])

lemma miss_create_chart:
  "get_excel_path lib root (dict_get arguments ''filepath'' (PStr '''')) = Inr p \<Longrightarrow>
   key \<in> set [''sheet_name'', ''data_range'', ''chart_type'', ''target_cell''] \<Longrightarrow> omitted_or_empty arguments key \<Longrightarrow>
   tool_create_chart be lib root arguments s = (Inr missing_required, s)"
  by (auto simp: tool_create_chart_def Let_def py_all_def
      dest: omitted_or_empty_get [where dflt = "PStr ''''"]
            omitted_or_empty_get [where dflt = "PList []"])

lemma miss_create_pivot_table:
  "get_excel_path lib root (dict_get arguments ''filepath'' (PStr '''')) = Inr p \<Longrightarrow>
   key \<in> set [''sheet_name'', ''data_range'', ''rows'', ''values''] \<Longrightarrow> omitted_or_empty arguments key \<Longrightarrow>
   tool_create_pivot_table be lib root arguments s = (Inr missing_required, s)"
  by (auto simp: tool_create_pivot_table_def Let_def py_all_def
      dest: omitted_or_empty_get [where dflt = "PStr ''''"]
            omitted_or_empty_get [where dflt = "PList []"])

lemma miss_copy_worksheet:
  "get_excel_path lib root (dict_get arguments ''filepath'' (PStr '''')) = Inr p \<Longrightarrow>
   key \<in> set [''source_sheet'', ''target_sheet''] \<Longrightarrow> omitted_or_empty arguments key \<Longrightarrow>
   tool_copy_worksheet be lib root arguments s = (Inr missing_required, s)"
  by (auto simp: tool_copy_worksheet_def Let_def py_all_def
      dest: omitted_or_empty_get [where dflt = "PStr ''''"]
            omitted_or_empty_get [where dflt = "PList []"])

lemma miss_delete_worksheet:
  "get_excel_path lib root (dict_get arguments ''filepath'' (PStr '''')) = Inr p \<Longrightarrow>
   key \<in> set [''sheet_name''] \<Longrightarrow> omitted_or_empty arguments key \<Longrightarrow>
   tool_delete_worksheet be lib root arguments s = (Inr missing_required, s)"
  by (auto simp: tool_delete_worksheet_def Let_def py_all_def
      dest: omitted_or_empty_get [where dflt = "PStr ''''"]
            omitted_or_empty_get [where dflt = "PList []"])

lemma miss_rename_worksheet:
  "get_excel_path lib root (dict_get arguments ''filepath'' (PStr '''')) = Inr p \<Longrightarrow>
   key \<in> set [''old_name'', ''new_name''] \<Longrightarrow> omitted_or_empty arguments key \<Longrightarrow>
   tool_rename_worksheet be lib root arguments s = (Inr missing_required, s)"
  by (auto simp: tool_rename_worksheet_def Let_def py_all_def
      dest: omitted_or_empty_get [where dflt = "PStr ''''"]
            omitted_or_empty_get [where dflt = "PList []"])

lemma miss_merge_cells:
  "get_excel_path lib root (dict_get arguments ''filepath'' (PStr '''')) = Inr p \<Longrightarrow>
   key \<in> set [''sheet_name'', ''start_cell'', ''end_cell''] \<Longrightarrow> omitted_or_empty arguments key \<Longrightarrow>
   tool_merge_cells be lib root arguments s = (Inr missing_required, s)"
  by (auto simp: tool_merge_cells_def Let_def py_all_def
      dest: omitted_or_empty_get [where dflt = "PStr ''''"]
            omitted_or_empty_get [where dflt = "PList []"])

lemma miss_unmerge_cells:
  "get_excel_path lib root (dict_get arguments ''filepath'' (PStr '''')) = Inr p \<Longrightarrow>
   key \<in> set [''sheet_name'', ''start_cell'', ''end_cell''] \<Longrightarrow> omitted_or_empty arguments key \<Longrightarrow>
   tool_unmerge_cells be lib root arguments s = (Inr missing_required, s)"
  by (auto simp: tool_unmerge_cells_def Let_def py_all_def
      dest: omitted_or_empty_get [where dflt = "PStr ''''"]
            omitted_or_empty_get [where dflt = "PList []"])

lemma miss_copy_range:
  "get_excel_path lib root (dict_get arguments ''filepath'' (PStr '''')) = Inr p \<Longrightarrow>
   key \<in> set [''sheet_name'', ''source_start'', ''source_end'', ''target_start''] \<Longrightarrow> omitted_or_empty arguments key \<Longrightarrow>
   tool_copy_range be lib root arguments s = (Inr missing_required, s)"
  by (auto simp: tool_copy_range_def Let_def py_all_def
      dest: omitted_or_empty_get [where dflt = "PStr ''''"]
            omitted_or_empty_get [where dflt = "PList []"])

lemma miss_delete_range:
  "get_excel_path lib root (dict_get arguments ''filepath'' (PStr '''')) = Inr p \<Longrightarrow>
   key \<in> set [''sheet_name'', ''start_cell'', ''end_cell''] \<Longrightarrow> omitted_or_empty arguments key \<Longrightarrow>
   tool_delete_range be lib root arguments s = (Inr missing_required, s)"
  by (auto simp: tool_delete_range_def Let_def py_all_def
      dest: omitted_or_empty_get [where dflt = "PStr ''''"]
            omitted_or_empty_get [where dflt = "PList []"])

lemma miss_validate_excel_range:
  "get_excel_path lib root (dict_get arguments ''filepath'' (PStr '''')) = Inr p \<Longrightarrow>
   key \<in> set [''sheet_name'', ''start_cell''] \<Longrightarrow> omitted_or_empty arguments key \<Longrightarrow>
   tool_validate_excel_range be lib root arguments s = (Inr missing_required, s)"
  by (auto simp: tool_validate_excel_range_def Let_def py_all_def
      dest: omitted_or_empty_get [where dflt = "PStr ''''"]
            omitted_or_empty_get [where dflt = "PList []"])

lemma other_required_missing:
  assumes "t \<in> set list_tools" and "key \<in> set (required t)" and "key \<noteq> ''filepath''"
      and "omitted_or_empty arguments key"
      and "get_excel_path lib root (dict_get arguments ''filepath'' (PStr '''')) = Inr p"
      and "repr_arguments lib arguments = Inr logged"
  shows "call_tool be lib root (tool_name t) arguments s = (Inr missing_required, s)"
  using assms
  apply (simp only: list_tools_def list.set insert_iff empty_iff simp_thms)
  apply (elim disjE)
  subgoal
    using miss_apply_formula [of lib root arguments p key be s]
    by (simp add: call_tool_logged dispatch_simps)
  subgoal
    using miss_validate_formula_syntax [of lib root arguments p key be s]
    by (simp add: call_tool_logged dispatch_simps)
  subgoal
    using miss_format_range [of lib root arguments p key be s]
    by (simp add: call_tool_logged dispatch_simps)
  subgoal
    using miss_read_data_from_excel [of lib root arguments p key be s]
    by (simp add: call_tool_logged dispatch_simps)
  subgoal
    using miss_write_data_to_excel [of lib root arguments p key be s]
    by (simp add: call_tool_logged dispatch_simps)
  subgoal by simp
  subgoal
    using miss_create_worksheet [of lib root arguments p key be s]
    by (simp add: call_tool_logged dispatch_simps)
  subgoal
    using miss_create_chart [of lib root arguments p key be s]
    by (simp add: call_tool_logged dispatch_simps)
  subgoal
    using miss_create_pivot_table [of lib root arguments p key be s]
    by (simp add: call_tool_logged dispatch_simps)
  subgoal
    using miss_copy_worksheet [of lib root arguments p key be s]
    by (simp add: call_tool_logged dispatch_simps)
  subgoal
    using miss_delete_worksheet [of lib root arguments p key be s]
    by (simp add: call_tool_logged dispatch_simps)
  subgoal
    using miss_rename_worksheet [of lib root arguments p key be s]
    by (simp add: call_tool_logged dispatch_simps)
  subgoal by simp
  subgoal
    using miss_merge_cells [of lib root arguments p key be s]
    by (simp add: call_tool_logged dispatch_simps)
  subgoal
    using miss_unmerge_cells [of lib root arguments p key be s]
    by (simp add: call_tool_logged dispatch_simps)
  subgoal
    using miss_copy_range [of lib root arguments p key be s]
    by (simp add: call_tool_logged dispatch_simps)
  subgoal
    using miss_delete_range [of lib root arguments p key be s]
    by (simp add: call_tool_logged dispatch_simps)
  subgoal
    using miss_validate_excel_range [of lib root arguments p key be s]
    by (simp add: call_tool_logged dispatch_simps)
  done

text \<open>With a non-empty root, no resolved path is empty.\<close>

lemma resolved_path_nonempty:
  "root \<noteq> [] \<Longrightarrow> get_excel_path lib root v = Inr p \<Longrightarrow> p \<noteq> []"
  by (cases v) (auto simp: get_excel_path_def path_join_def isabs_def split: if_splits)

text \<open>
  Claim C1 says that a call with the required \<open>filepath\<close> omitted or empty returns
  \<open>Error: Missing required parameters\<close> and calls no backend operation. Every branch
  tests the path after \<open>get_excel_path\<close>, and the resolved path of an empty filename is
  the root directory followed by the separator, which is not empty: the test cannot fail
  on \<open>filepath\<close>, and the backend is called on the root directory. Here
  \<open>create_worksheet\<close> is called with \<open>sheet_name\<close> only.
\<close>

theorem omitted_filepath_reaches_backend:
  "call_tool ok_backend example_lib default_EXCEL_FILES_PATH ''create_worksheet''
     [''sheet_name'' \<mapsto> PStr ''Sheet1''] ((), [])
   = (Inr (text_reply Success ''done''),
      ((), [(Call ''create_worksheet_impl'' [PStr ''./excel_files/'', PStr ''Sheet1''] [],
             Inr (PDict [(''message'', PStr ''done'')]))]))"
  by (simp add: call_tool_def log_call_def example_lib_def dispatch_def
        tool_create_worksheet_def eval_defs py_all_def
        try_except_def call_for_message_def invoke_def ok_backend_def return_message_def
        subscript_def TextContent_of_def)

section \<open>Resource Reader: claim C9\<close>

lemma read_resource_not_found:
  "take 8 uri = ''excel://'' \<Longrightarrow>
   get_excel_path lib root (PStr (unquote lib (drop 8 uri))) = Inr p \<Longrightarrow> \<not> path_exists p \<Longrightarrow>
   read_resource lib root path_exists get_workbook_info uri
     = (''Error: File not found: '' @ unquote lib (drop 8 uri), 0)"
  by (simp add: read_resource_def Let_def)

lemma read_resource_returns_when_worker_done:
  "take 8 uri = ''excel://'' \<Longrightarrow>
   get_excel_path lib root (PStr (unquote lib (drop 8 uri))) = Inr p \<Longrightarrow> path_exists p \<Longrightarrow>
   snd (read_resource lib root path_exists get_workbook_info uri) = fst (get_workbook_info p)"
  by (auto simp: read_resource_def Let_def wait_for_def shutdown_wait_def split: prod.splits option.splits if_splits)

text \<open>
  Claim C9 says that a metadata fetch that exceeds the 15 seconds yields the timeout
  message rather than blocking past the bound. With a fetch of 60 seconds on an existing
  file the text is the timeout message, but the call returns at 60 seconds, not at 15:
  \<open>wait_for\<close> gives up at the bound, and leaving the \<open>with\<close> block then waits for
  the worker thread.
\<close>

theorem read_resource_blocks_past_timeout:
  "read_resource example_lib default_EXCEL_FILES_PATH (\<lambda>p. True)
     (\<lambda>p. (60000, Inr (PDict [(''sheets'', PList [PStr ''Sheet1''])]))) ''excel://slow.xlsx''
   = (''Error: Operation timed out while reading Excel file'', 60000) \<and> (15000::nat) < 60000"
  by (simp add: read_resource_def example_lib_def eval_defs wait_for_def shutdown_wait_def
        get_info_def)

end
